theory Spec2Isabelle
  imports Main
begin

section \<open>Python strings\<close>

text \<open>
  A Python \<open>str\<close> is modelled as a \<open>string\<close>, one \<open>char\<close> per code point, so the model
  covers texts whose code points are below 256. On that range \<open>str.lower\<close> keeps the
  length of the text, which the index arithmetic of the locators relies on.
\<close>

definition py_isspace :: "char \<Rightarrow> bool" where
  \<comment> \<open>\<open>str.isspace\<close> of one character, also the class \<open>\s\<close> of \<open>re\<close>:
      U+0009..U+000D, U+001C..U+0020, U+0085, U+00A0.\<close>
  "py_isspace c = (let n = (of_char c :: int) in
     (9 \<le> n \<and> n \<le> 13) \<or> (28 \<le> n \<and> n \<le> 32) \<or> n = 133 \<or> n = 160)"

definition py_lower_char :: "char \<Rightarrow> char" where
  \<comment> \<open>\<open>A\<close>..\<open>Z\<close> and U+00C0..U+00DE (without the sign U+00D7) move up by 32.\<close>
  "py_lower_char c = (let n = (of_char c :: int) in
     if (65 \<le> n \<and> n \<le> 90) \<or> (192 \<le> n \<and> n \<le> 222 \<and> n \<noteq> 215)
     then char_of (n + 32) else c)"

definition lower :: "string \<Rightarrow> string" where
  "lower s = map py_lower_char s"

definition strip :: "string \<Rightarrow> string" where
  \<comment> \<open>\<open>s.strip()\<close>: leading and trailing whitespace removed.\<close>
  "strip s = rev (dropWhile py_isspace (rev (dropWhile py_isspace s)))"

fun startswith :: "string \<Rightarrow> string \<Rightarrow> bool" where
  "startswith s [] = True"
| "startswith [] (p # ps) = False"
| "startswith (c # cs) (p # ps) = (c = p \<and> startswith cs ps)"

fun contains :: "string \<Rightarrow> string \<Rightarrow> bool" where
  \<comment> \<open>\<open>sub in s\<close>\<close>
  "contains [] sub = (sub = [])"
| "contains (c # cs) sub = (startswith (c # cs) sub \<or> contains cs sub)"

fun py_find :: "string \<Rightarrow> string \<Rightarrow> int" where
  \<comment> \<open>\<open>s.find(sub)\<close>: the index of the first occurrence, \<open>-1\<close> when there is none.\<close>
  "py_find [] sub = (if sub = [] then 0 else - 1)"
| "py_find (c # cs) sub =
     (if startswith (c # cs) sub then 0
      else (let r = py_find cs sub in if r < 0 then - 1 else r + 1))"

definition slice_index :: "nat \<Rightarrow> int \<Rightarrow> nat" where
  \<comment> \<open>A slice bound: a negative bound counts from the end, and both are clipped.\<close>
  "slice_index n i = (if i < 0 then nat (int n + i) else min n (nat i))"

definition py_slice :: "string \<Rightarrow> int \<Rightarrow> int \<Rightarrow> string" where
  \<comment> \<open>\<open>s[i:j]\<close>\<close>
  "py_slice s i j =
     (let a = slice_index (length s) i; b = slice_index (length s) j
      in take (b - a) (drop a s))"

fun split_on :: "char \<Rightarrow> string \<Rightarrow> string list" where
  \<comment> \<open>\<open>s.split(sep)\<close> for a separator of one character\<close>
  "split_on sep [] = [[]]"
| "split_on sep (c # cs) =
     (if c = sep then [] # split_on sep cs
      else (case split_on sep cs of [] \<Rightarrow> [[c]] | w # ws \<Rightarrow> (c # w) # ws))"

fun before_first :: "string \<Rightarrow> string \<Rightarrow> string" where
  \<comment> \<open>\<open>s.split(sep)[0]\<close> for a non-empty separator: the text before its first occurrence\<close>
  "before_first [] sep = []"
| "before_first (c # cs) sep =
     (if startswith (c # cs) sep then [] else c # before_first cs sep)"

fun replace_first :: "string \<Rightarrow> string \<Rightarrow> string \<Rightarrow> string" where
  \<comment> \<open>\<open>s.replace(old, new, 1)\<close> for a non-empty \<open>old\<close>\<close>
  "replace_first [] old new = []"
| "replace_first (c # cs) old new =
     (if startswith (c # cs) old then new @ drop (length old) (c # cs)
      else c # replace_first cs old new)"

definition is_ascii_upper :: "char \<Rightarrow> bool" where
  "is_ascii_upper c = (let n = (of_char c :: int) in 65 \<le> n \<and> n \<le> 90)"

definition is_ascii_lower :: "char \<Rightarrow> bool" where
  "is_ascii_lower c = (let n = (of_char c :: int) in 97 \<le> n \<and> n \<le> 122)"

fun title_from :: "bool \<Rightarrow> string \<Rightarrow> string" where
  \<comment> \<open>The flag says whether the previous character is a letter.\<close>
  "title_from prev [] = []"
| "title_from prev (c # cs) =
     (if is_ascii_lower c
      then (if prev then c else char_of (of_char c - (32::int))) # title_from True cs
      else if is_ascii_upper c
      then (if prev then char_of (of_char c + (32::int)) else c) # title_from True cs
      else c # title_from False cs)"

definition py_title :: "string \<Rightarrow> string" where
  \<comment> \<open>\<open>s.title()\<close> on ASCII text, which is all the code applies it to (the skill
      vocabulary): a letter after a non-letter is upper-cased, a letter after a letter
      lower-cased.\<close>
  "py_title s = title_from False s"

definition digit_char :: "int \<Rightarrow> char" where
  \<comment> \<open>The decimal digit of a number from 0 to 9.\<close>
  "digit_char n = ''0123456789'' ! nat n"

function str_digits :: "int \<Rightarrow> string" where
  "str_digits n =
     (if n < 10 then [digit_char n] else str_digits (n div 10) @ [digit_char (n mod 10)])"
  by pat_completeness auto
termination
  by (relation "measure nat") auto

declare str_digits.simps [simp del]

definition py_str_int :: "int \<Rightarrow> string" where
  \<comment> \<open>\<open>str(n)\<close> of an integer\<close>
  "py_str_int n = (if n < 0 then CHR ''-'' # str_digits (- n) else str_digits n)"

definition has_keyword :: "string list \<Rightarrow> string \<Rightarrow> bool" where
  \<comment> \<open>\<open>any(keyword in s for keyword in keywords)\<close>\<close>
  "has_keyword keywords s = list_ex (\<lambda>keyword. contains s keyword) keywords"

section \<open>The candidate profile\<close>

record education_map =
  degree :: "string option"
  year :: "int option"

record experience_map =
  title :: "string option"

record candidate_profile =
  education :: education_map
  experience :: experience_map
  skills :: "string list"
  hobbies :: "string list"
  certifications :: "string list"
  projects :: "string list"
  introduction :: string

section \<open>The section locators of \<open>ResumeProcessor\<close>\<close>

definition education_keywords :: "string list" where
  "education_keywords = [''education'', ''degree'', ''university'', ''college'',
     ''bachelor'', ''master'', ''phd'', ''graduation'']"

definition year_of_line :: "string \<Rightarrow> int option" where
  \<comment> \<open>The loop over \<open>range(2000, 2030)\<close>, left at the first year found in the line.\<close>
  "year_of_line line = List.find (\<lambda>y. contains line (py_str_int y)) [2000..2029]"

fun extract_education :: "string \<Rightarrow> string list \<Rightarrow> education_map" where
  "extract_education text_lower [] = \<lparr>degree = None, year = None\<rparr>"
| "extract_education text_lower (line # rest) =
     (if has_keyword education_keywords (lower line)
      then \<lparr>degree = Some (strip line), year = year_of_line line\<rparr>
      else extract_education text_lower rest)"

definition experience_keywords :: "string list" where
  "experience_keywords = [''experience'', ''work'', ''employment'', ''job'',
     ''position'', ''role'']"

fun extract_experience :: "string \<Rightarrow> string list \<Rightarrow> experience_map" where
  "extract_experience text_lower [] = \<lparr>title = None\<rparr>"
| "extract_experience text_lower (line # rest) =
     (if has_keyword experience_keywords (lower line)
      then (case rest of
              [] \<Rightarrow> \<lparr>title = None\<rparr>
            | next_line # _ \<Rightarrow>
                \<lparr>title = Some (if strip next_line \<noteq> [] then strip next_line else [])\<rparr>)
      else extract_experience text_lower rest)"

definition common_skills :: "string list" where
  "common_skills = [''python'', ''java'', ''javascript'', ''sql'', ''mongodb'', ''postgresql'',
     ''fastapi'', ''flask'', ''django'', ''react'', ''node.js'', ''aws'', ''docker'',
     ''git'', ''linux'', ''data analysis'', ''machine learning'', ''deep learning'',
     ''tensorflow'', ''pytorch'', ''pandas'', ''numpy'', ''scikit-learn'']"

definition skills_keywords :: "string list" where
  "skills_keywords = [''skills'', ''technical skills'', ''competencies'']"

fun skills_window :: "string list \<Rightarrow> string \<Rightarrow> string \<Rightarrow> string" where
  \<comment> \<open>The loop over the skills keywords: the first one present in the lowered text
      selects the 500 characters of the text from its first occurrence, lowered.\<close>
  "skills_window [] text_lower resume_text = []"
| "skills_window (keyword # rest) text_lower resume_text =
     (if contains text_lower keyword
      then (let idx = py_find text_lower keyword
            in lower (py_slice resume_text idx (idx + 500)))
      else skills_window rest text_lower resume_text)"

definition extract_skills ::
  "(string list \<Rightarrow> string list) \<Rightarrow> string \<Rightarrow> string \<Rightarrow> string list" where
  \<comment> \<open>\<open>list(set(skills))\<close> lists each collected skill once, in an order that depends on
      the hash seed of the run. \<open>list_of_set\<close> is that listing, a parameter of the run; of it
      Python promises \<open>set (list_of_set xs) = set xs\<close> and \<open>distinct (list_of_set xs)\<close>, and
      \<open>remdups\<close> is one such listing.\<close>
  "extract_skills list_of_set text_lower resume_text =
     (let skills_text = skills_window skills_keywords text_lower resume_text
      in list_of_set (map py_title
           (filter (\<lambda>skill. contains text_lower skill \<or> contains skills_text skill)
              common_skills)))"

definition cert_keywords :: "string list" where
  "cert_keywords = [''certification'', ''certificate'', ''certified'', ''aws'',
     ''google'', ''microsoft'']"

fun collect_certifications :: "string list \<Rightarrow> string list" where
  "collect_certifications [] = []"
| "collect_certifications (line # rest) =
     (if has_keyword cert_keywords (lower line) \<and> length (strip line) > 5
      then strip line # collect_certifications rest
      else collect_certifications rest)"

definition extract_certifications :: "string \<Rightarrow> string list \<Rightarrow> string list" where
  "extract_certifications text_lower lines = take 5 (collect_certifications lines)"

definition project_keywords :: "string list" where
  "project_keywords = [''project'', ''projects'', ''portfolio'']"

fun collect_projects :: "string list \<Rightarrow> string list \<Rightarrow> string list" where
  \<comment> \<open>The inner loop over the lines of the window, left once five are collected.\<close>
  "collect_projects acc [] = acc"
| "collect_projects acc (line # rest) =
     (let acc' = (if strip line \<noteq> [] \<and> length (strip line) > 10
                  then acc @ [strip line] else acc)
      in if length acc' \<ge> 5 then acc' else collect_projects acc' rest)"

fun extract_projects_from :: "nat \<Rightarrow> string list \<Rightarrow> string list \<Rightarrow> string list" where
  \<comment> \<open>The outer loop, at line \<open>i\<close> of \<open>lines\<close>, the lines from \<open>i\<close> on still to visit;
      \<open>range(i+1, min(i+10, len(lines)))\<close> are the indices of the window.\<close>
  "extract_projects_from i lines [] = []"
| "extract_projects_from i lines (line # rest) =
     (if has_keyword project_keywords (lower line)
      then collect_projects []
             (map (\<lambda>j. lines ! j) [i + 1 ..< min (i + 10) (length lines)])
      else extract_projects_from (i + 1) lines rest)"

definition extract_projects :: "string \<Rightarrow> string list \<Rightarrow> string list" where
  "extract_projects text_lower lines = take 5 (extract_projects_from 0 lines lines)"

definition hobby_keywords :: "string list" where
  "hobby_keywords = [''hobbies'', ''interests'', ''hobby'', ''interest'']"

fun extract_hobbies :: "string \<Rightarrow> string list \<Rightarrow> string list" where
  "extract_hobbies text_lower [] = []"
| "extract_hobbies text_lower (line # rest) =
     (if has_keyword hobby_keywords (lower line)
      then (let parts = split_on (CHR '':'') line
            in if length parts > 1
               then take 5 (map strip (split_on (CHR '','') (parts ! 1)))
               else [])
      else extract_hobbies text_lower rest)"

definition intro_keywords :: "string list" where
  "intro_keywords = [''summary'', ''introduction'', ''about'', ''profile'', ''objective'']"

definition clean_intro :: "string \<Rightarrow> string" where
  \<comment> \<open>What is done to the window of 300 characters once a keyword is found.\<close>
  "clean_intro window =
     (let intro = strip window;
          intro = fold (\<lambda>kw s. replace_first s kw []) intro_keywords intro;
          intro = strip intro;
          intro = (if startswith intro '':'' then strip (drop 1 intro) else intro)
      in take 500 intro)"

fun intro_by_keyword :: "string list \<Rightarrow> string \<Rightarrow> string \<Rightarrow> string option" where
  \<comment> \<open>The loop over the introduction keywords; \<open>None\<close> when it ends without returning.\<close>
  "intro_by_keyword [] resume_text text_lower = None"
| "intro_by_keyword (keyword # rest) resume_text text_lower =
     (if contains text_lower keyword
      then (let idx = py_find text_lower keyword
            in Some (clean_intro (py_slice resume_text idx (idx + 300))))
      else intro_by_keyword rest resume_text text_lower)"

definition extract_introduction :: "string \<Rightarrow> string \<Rightarrow> string" where
  "extract_introduction resume_text text_lower =
     (case intro_by_keyword intro_keywords resume_text text_lower of
        Some intro \<Rightarrow> intro
      | None \<Rightarrow>
          (let first_paragraph =
                 (if contains resume_text ''\<newline>\<newline>''
                  then before_first resume_text ''\<newline>\<newline>''
                  else take 300 resume_text)
           in take 500 (strip first_paragraph)))"

definition qualifying_lines :: "nat \<Rightarrow> string list \<Rightarrow> string list" where
  \<comment> \<open>The projects policy in the words of the specification, for a window of \<open>n\<close> lines
      after the matching line: the trimmed non-blank lines of the window longer than 10
      characters, in order, the first five of them.\<close>
  "qualifying_lines n following =
     take 5 (filter (\<lambda>l. l \<noteq> [] \<and> length l > 10) (map strip (take n following)))"

section \<open>The profile assembler of \<open>ResumeProcessor\<close>\<close>

datatype error = TypeError | AttributeError | JSONDecodeError | OtherError string

definition and_then :: "error + 'a \<Rightarrow> ('a \<Rightarrow> error + 'b) \<Rightarrow> error + 'b" where
  \<comment> \<open>One statement after another: an exception of the first skips the second.\<close>
  "and_then r f = (case r of Inl e \<Rightarrow> Inl e | Inr x \<Rightarrow> f x)"

text \<open>
  \<open>_extract_with_rules\<close> reaches the seven locators through \<open>self\<close>. The model takes them
  as a record of functions that may raise, so that the handler of \<open>process_resume\<close> has
  a meaning; \<open>resume_locators\<close> are the methods of the class, none of which raises on a
  \<open>str\<close>, in a run whose sets are listed by \<open>list_of_set\<close>.
\<close>

record locators =
  loc_education :: "string \<Rightarrow> string list \<Rightarrow> error + education_map"
  loc_experience :: "string \<Rightarrow> string list \<Rightarrow> error + experience_map"
  loc_skills :: "string \<Rightarrow> string \<Rightarrow> error + string list"
  loc_certifications :: "string \<Rightarrow> string list \<Rightarrow> error + string list"
  loc_projects :: "string \<Rightarrow> string list \<Rightarrow> error + string list"
  loc_hobbies :: "string \<Rightarrow> string list \<Rightarrow> error + string list"
  loc_introduction :: "string \<Rightarrow> string \<Rightarrow> error + string"

definition resume_locators :: "(string list \<Rightarrow> string list) \<Rightarrow> locators" where
  "resume_locators list_of_set =
     \<lparr>loc_education = (\<lambda>text_lower lines. Inr (extract_education text_lower lines)),
      loc_experience = (\<lambda>text_lower lines. Inr (extract_experience text_lower lines)),
      loc_skills = (\<lambda>text_lower resume_text.
         Inr (extract_skills list_of_set text_lower resume_text)),
      loc_certifications = (\<lambda>text_lower lines. Inr (extract_certifications text_lower lines)),
      loc_projects = (\<lambda>text_lower lines. Inr (extract_projects text_lower lines)),
      loc_hobbies = (\<lambda>text_lower lines. Inr (extract_hobbies text_lower lines)),
      loc_introduction = (\<lambda>resume_text text_lower.
         Inr (extract_introduction resume_text text_lower))\<rparr>"

definition extract_with_rules_by :: "locators \<Rightarrow> string \<Rightarrow> error + candidate_profile" where
  "extract_with_rules_by self resume_text =
     (let text_lower = lower resume_text;
          lines = split_on CHR ''\<newline>'' resume_text
      in and_then (loc_education self text_lower lines) (\<lambda>education'.
         and_then (loc_experience self text_lower lines) (\<lambda>experience'.
         and_then (loc_skills self text_lower resume_text) (\<lambda>skills'.
         and_then (loc_certifications self text_lower lines) (\<lambda>certifications'.
         and_then (loc_projects self text_lower lines) (\<lambda>projects'.
         and_then (loc_hobbies self text_lower lines) (\<lambda>hobbies'.
         and_then (loc_introduction self resume_text text_lower) (\<lambda>introduction'.
         Inr \<lparr>education = education', experience = experience', skills = skills',
              hobbies = hobbies', certifications = certifications',
              projects = projects', introduction = introduction'\<rparr>))))))))"

definition extract_with_rules ::
  "(string list \<Rightarrow> string list) \<Rightarrow> string \<Rightarrow> error + candidate_profile" where
  "extract_with_rules list_of_set resume_text =
     extract_with_rules_by (resume_locators list_of_set) resume_text"

definition extract_with_hf_api :: "string \<Rightarrow> error + candidate_profile option" where
  \<comment> \<open>The body of the method is \<open>return None\<close>.\<close>
  "extract_with_hf_api resume_text = Inr None"

definition minimal_profile :: "string \<Rightarrow> candidate_profile" where
  \<comment> \<open>The dictionary built by the handler of \<open>process_resume\<close>.\<close>
  "minimal_profile resume_text =
     \<lparr>education = \<lparr>degree = None, year = None\<rparr>,
      experience = \<lparr>title = None\<rparr>,
      skills = [], hobbies = [], certifications = [], projects = [],
      introduction = (if resume_text \<noteq> [] then take 500 resume_text else [])\<rparr>"

definition process_resume_by ::
  "locators \<Rightarrow> string option \<Rightarrow> string \<Rightarrow> candidate_profile" where
  \<comment> \<open>\<open>hf_api_key\<close> is the environment variable read by the constructor, \<open>None\<close> when unset.\<close>
  "process_resume_by self hf_api_key resume_text =
     (let extracted_data =
            (if hf_api_key \<noteq> None \<and> hf_api_key \<noteq> Some []
             then (case extract_with_hf_api resume_text of
                     Inr found \<Rightarrow> found
                   | Inl e \<Rightarrow> None)
             else None)
      in case (case extracted_data of
                 Some profile \<Rightarrow> Inr profile
               | None \<Rightarrow> extract_with_rules_by self resume_text) of
           Inr profile \<Rightarrow> profile
         | Inl e \<Rightarrow> minimal_profile resume_text)"

definition process_resume ::
  "(string list \<Rightarrow> string list) \<Rightarrow> string option \<Rightarrow> string \<Rightarrow> candidate_profile" where
  "process_resume list_of_set hf_api_key resume_text =
     process_resume_by (resume_locators list_of_set) hf_api_key resume_text"

section \<open>The fallback answerer of \<open>QAService\<close>\<close>

definition re_digit :: "char \<Rightarrow> bool" where
  \<comment> \<open>\<open>\d\<close>\<close>
  "re_digit c = (let n = (of_char c :: int) in 48 \<le> n \<and> n \<le> 57)"

definition re_word_char :: "char \<Rightarrow> bool" where
  \<comment> \<open>\<open>\w\<close>: letters, digits and other numeric characters, and the underscore.\<close>
  "re_word_char c = (let n = (of_char c :: int) in
     (48 \<le> n \<and> n \<le> 57) \<or> (65 \<le> n \<and> n \<le> 90) \<or> n = 95 \<or> (97 \<le> n \<and> n \<le> 122) \<or>
     n = 170 \<or> n = 178 \<or> n = 179 \<or> n = 181 \<or> n = 185 \<or> n = 186 \<or>
     (188 \<le> n \<and> n \<le> 190) \<or> (192 \<le> n \<and> n \<le> 214) \<or> (216 \<le> n \<and> n \<le> 246) \<or>
     (248 \<le> n \<and> n \<le> 255))"

definition year_here :: "string \<Rightarrow> bool" where
  \<comment> \<open>\<open>(19|20)\d{2}\b\<close> matches at the start of the text.\<close>
  "year_here s =
     ((startswith s ''19'' \<or> startswith s ''20'') \<and>
      (case drop 2 s of
         d1 # d2 # after \<Rightarrow>
           re_digit d1 \<and> re_digit d2 \<and>
           (case after of [] \<Rightarrow> True | a # _ \<Rightarrow> \<not> re_word_char a)
       | _ \<Rightarrow> False))"

fun findall_years :: "nat \<Rightarrow> bool \<Rightarrow> string \<Rightarrow> string list" where
  \<comment> \<open>\<open>re.findall(r'\b(19|20)\d{2}\b', s)\<close>. The pattern has one group, so the list holds
      what the group matched: the two characters \<open>19\<close> or \<open>20\<close> of each match. The number
      counts the characters of the last match still to pass; the flag says whether the
      previous character is a word character.\<close>
  "findall_years skip prev_word [] = []"
| "findall_years (Suc k) prev_word (c # cs) = findall_years k (re_word_char c) cs"
| "findall_years 0 prev_word (c # cs) =
     (if \<not> prev_word \<and> year_here (c # cs)
      then take 2 (c # cs) # findall_years 3 True cs
      else findall_years 0 (re_word_char c) cs)"

fun skills_tail :: "string \<Rightarrow> string option" where
  \<comment> \<open>\<open>\s*([^\n]+)\<close> at the start of the text, the group's text: the star takes a
      whitespace character first and gives it back when the rest cannot match.\<close>
  "skills_tail [] = None"
| "skills_tail (c # cs) =
     (if py_isspace c
      then (case skills_tail cs of
              Some g \<Rightarrow> Some g
            | None \<Rightarrow>
                if c \<noteq> CHR ''\<newline>''
                then Some (takeWhile (\<lambda>x. x \<noteq> CHR ''\<newline>'') (c # cs)) else None)
      else Some (takeWhile (\<lambda>x. x \<noteq> CHR ''\<newline>'') (c # cs)))"

fun skills_search :: "string \<Rightarrow> string option" where
  \<comment> \<open>\<open>re.search(r'skills:\s*([^\n]+)', s, re.IGNORECASE)\<close>, the text of group 1\<close>
  "skills_search [] = None"
| "skills_search (c # cs) =
     (if lower (take 7 (c # cs)) = ''skills:''
      then (case skills_tail (drop 7 (c # cs)) of
              Some g \<Rightarrow> Some g
            | None \<Rightarrow> skills_search cs)
      else skills_search cs)"

definition brace_group :: "string \<Rightarrow> string option" where
  \<comment> \<open>\<open>({[^}]+})\<close> at the start of the text\<close>
  "brace_group s =
     (if s \<noteq> [] \<and> hd s = CHR ''{''
      then (let body = takeWhile (\<lambda>x. x \<noteq> CHR ''}'') (tl s);
                after = dropWhile (\<lambda>x. x \<noteq> CHR ''}'') (tl s)
            in if body \<noteq> [] \<and> after \<noteq> [] then Some (''{'' @ body @ ''}'') else None)
      else None)"

fun experience_search :: "string \<Rightarrow> string option" where
  \<comment> \<open>\<open>re.search(r'experience:\s*({[^}]+})', s)\<close>, the text of group 1\<close>
  "experience_search [] = None"
| "experience_search (c # cs) =
     (if startswith (c # cs) ''experience:''
      then (case brace_group (dropWhile py_isspace (drop 11 (c # cs))) of
              Some g \<Rightarrow> Some g
            | None \<Rightarrow> experience_search cs)
      else experience_search cs)"

definition fallback_answer :: "string \<Rightarrow> string" where
  "fallback_answer prompt =
     (let prompt_lower = lower prompt
      in if contains prompt_lower ''graduation'' \<or> contains prompt_lower ''graduate''
         then (let years = (if contains prompt_lower ''education''
                            then findall_years 0 False prompt else [])
               in if years \<noteq> []
                  then ''The candidate finished graduation in '' @ last years @ ''.''
                  else ''The graduation date information is not explicitly available in the candidate's data.'')
         else if contains prompt_lower ''skill''
         then (case (if contains prompt_lower ''skills:''
                     then skills_search prompt_lower else None) of
                 Some skills_text \<Rightarrow>
                   ''The candidate has the following skills: '' @ skills_text
               | None \<Rightarrow>
                   ''Please check the skills section in the candidate's profile for detailed information.'')
         else if contains prompt_lower ''experience'' \<or> contains prompt_lower ''work''
         then (case (if contains prompt_lower ''experience:''
                     then experience_search prompt_lower else None) of
                 Some exp_text \<Rightarrow> ''Based on the candidate's experience: '' @ exp_text
               | None \<Rightarrow>
                   ''Please check the experience section in the candidate's profile for work history details.'')
         else ''I couldn't generate a proper answer. Please check the candidate's profile or try rephrasing your question.'')"

section \<open>The hosted-inference call of \<open>QAService\<close>\<close>

datatype 'n json =
  JNull | JBool bool | JNum 'n | JStr string | JList "'n json list"
  | JDict "(string \<times> 'n json) list"

datatype 'n http_result =
  Timeout
  | RequestError
  | Response nat string "'n json option"

text \<open>
  \<open>Timeout\<close> is \<open>requests.exceptions.Timeout\<close> raised by the post, \<open>RequestError\<close> any
  other exception of it. A response carries its status code, its text, and what
  \<open>response.json()\<close> returns (\<open>None\<close> when it raises). The type \<open>'n\<close> is that of decoded
  numbers.
\<close>

definition strip_of :: "'n json \<Rightarrow> error + string" where
  \<comment> \<open>\<open>v.strip()\<close> of a decoded value: only a string has the method.\<close>
  "strip_of v = (case v of JStr s \<Rightarrow> Inr (strip s) | _ \<Rightarrow> Inl AttributeError)"

definition read_result :: "('n json \<Rightarrow> string) \<Rightarrow> 'n json \<Rightarrow> error + string" where
  \<comment> \<open>The branch of status 200, from \<open>result = response.json()\<close> on. \<open>py_str\<close> is
      Python's \<open>str\<close> on decoded values.\<close>
  "read_result py_str result =
     (let generic = Inr ''I couldn't generate a proper answer. Please try rephrasing your question.''
      in case result of
        JList (first # others) \<Rightarrow>
          (case first of
             JDict d \<Rightarrow>
               (case map_of d ''generated_text'' of
                  Some v \<Rightarrow> strip_of v
                | None \<Rightarrow>
                    (case map_of d ''text'' of
                       Some v \<Rightarrow> strip_of v
                     | None \<Rightarrow> Inr (strip (py_str first))))
           | JStr s \<Rightarrow>
               if contains s ''generated_text'' then Inl TypeError
               else Inr (strip s)
           | JList l \<Rightarrow>
               if JStr ''generated_text'' \<in> set l then Inl TypeError
               else Inr (strip (py_str first))
           | _ \<Rightarrow> Inl TypeError)
      | JStr s \<Rightarrow> Inr (strip s)
      | _ \<Rightarrow> generic)"

definition call_hf_api :: "('n json \<Rightarrow> string) \<Rightarrow> 'n http_result \<Rightarrow> string \<Rightarrow> string" where
  \<comment> \<open>\<open>_call_hf_api\<close>, given what the post did.\<close>
  "call_hf_api py_str outcome prompt =
     (case outcome of
        Timeout \<Rightarrow> ''Request timed out. Please try again.''
      | RequestError \<Rightarrow> fallback_answer prompt
      | Response status_code body decoded \<Rightarrow>
          if status_code = 200
          then (case decoded of
                  None \<Rightarrow> fallback_answer prompt
                | Some result \<Rightarrow>
                    (case read_result py_str result of
                       Inr answer \<Rightarrow> answer
                     | Inl e \<Rightarrow> fallback_answer prompt))
          else if status_code = 503
          then ''The AI model is currently loading. Please try again in a few seconds.''
          else fallback_answer prompt)"

section \<open>Facts about the string operations\<close>

lemma startswith_iff: "startswith s p \<longleftrightarrow> (\<exists>r. s = p @ r)"
  by (induction s p rule: startswith.induct) auto

lemma contains_iff: "contains s sub \<longleftrightarrow> (\<exists>a b. s = a @ sub @ b)"
proof (induction s)
  case Nil
  then show ?case by auto
next
  case (Cons c cs)
  show ?case
  proof
    assume "contains (c # cs) sub"
    then consider "startswith (c # cs) sub" | "contains cs sub" by auto
    then show "\<exists>a b. c # cs = a @ sub @ b"
    proof cases
      case 1
      then obtain r where "c # cs = sub @ r" by (auto simp: startswith_iff)
      then have "c # cs = [] @ sub @ r" by simp
      then show ?thesis by blast
    next
      case 2
      then obtain a b where "cs = a @ sub @ b" using Cons.IH by auto
      then have "c # cs = (c # a) @ sub @ b" by simp
      then show ?thesis by blast
    qed
  next
    assume "\<exists>a b. c # cs = a @ sub @ b"
    then obtain a b where ab: "c # cs = a @ sub @ b" by auto
    show "contains (c # cs) sub"
    proof (cases a)
      case Nil
      then have "startswith (c # cs) sub" using ab by (simp add: startswith_iff)
      then show ?thesis by simp
    next
      case (Cons x a')
      then have "cs = a' @ sub @ b" using ab by simp
      then show ?thesis using Cons.IH by auto
    qed
  qed
qed

lemma length_strip_le: "length (strip s) \<le> length s"
proof -
  have "length (strip s) \<le> length (rev (dropWhile py_isspace s))"
    unfolding strip_def length_rev [of "dropWhile _ (rev _)"] by (rule length_dropWhile_le)
  also have "\<dots> \<le> length s" by (simp add: length_dropWhile_le)
  finally show ?thesis .
qed

lemma length_extract_hobbies: "length (extract_hobbies text_lower lines) \<le> 5"
  by (induction lines) (simp_all add: Let_def)

lemma length_extract_introduction: "length (extract_introduction resume_text text_lower) \<le> 500"
proof -
  have "intro_by_keyword kws resume_text text_lower = Some intro \<Longrightarrow> length intro \<le> 500"
    for kws intro
    by (induction kws) (auto simp: clean_intro_def Let_def split: if_splits)
  then show ?thesis
    by (auto simp: extract_introduction_def Let_def split: option.splits)
qed

lemma find_upto_Some:
  "List.find P [a..b] = Some m \<longleftrightarrow>
     a \<le> m \<and> m \<le> b \<and> P m \<and> (\<forall>k. a \<le> k \<and> k < m \<longrightarrow> \<not> P k)"
proof (induction a b rule: upto.induct)
  case (1 i j)
  show ?case
  proof (cases "i \<le> j")
    case False
    then show ?thesis by auto
  next
    case True
    then have unfold: "[i..j] = i # [i + 1..j]" by (simp add: upto_rec1)
    show ?thesis
    proof (cases "P i")
      case True
      with unfold \<open>i \<le> j\<close> show ?thesis
        by (auto simp: not_less [symmetric] dest: spec [of _ i])
    next
      case False
      have step: "(\<forall>k. i \<le> k \<and> k < m \<longrightarrow> \<not> P k) \<longleftrightarrow> (\<forall>k. i + 1 \<le> k \<and> k < m \<longrightarrow> \<not> P k)"
      proof
        assume r: "\<forall>k. i + 1 \<le> k \<and> k < m \<longrightarrow> \<not> P k"
        show "\<forall>k. i \<le> k \<and> k < m \<longrightarrow> \<not> P k"
        proof (intro allI impI)
          fix k assume "i \<le> k \<and> k < m"
          then show "\<not> P k" using r False by (cases "k = i") auto
        qed
      qed auto
      have "P m \<Longrightarrow> i \<le> m \<Longrightarrow> i + 1 \<le> m" using False by (cases "m = i") auto
      then show ?thesis
        using False unfold "1.IH" [OF \<open>i \<le> j\<close>] step by auto
    qed
  qed
qed

lemma year_of_line_range: "year_of_line line = Some y \<Longrightarrow> 2000 \<le> y \<and> y \<le> 2029"
  unfolding year_of_line_def find_upto_Some by simp

lemma year_extract_education:
  "year (extract_education text_lower lines) = Some y \<Longrightarrow> 2000 \<le> y \<and> y \<le> 2029"
  by (induction lines) (auto split: if_splits dest: year_of_line_range)

lemma extract_with_rules_Inr:
  "extract_with_rules list_of_set resume_text =
     Inr \<lparr>education = extract_education (lower resume_text) (split_on CHR ''\<newline>'' resume_text),
          experience = extract_experience (lower resume_text) (split_on CHR ''\<newline>'' resume_text),
          skills = extract_skills list_of_set (lower resume_text) resume_text,
          hobbies = extract_hobbies (lower resume_text) (split_on CHR ''\<newline>'' resume_text),
          certifications =
            extract_certifications (lower resume_text) (split_on CHR ''\<newline>'' resume_text),
          projects = extract_projects (lower resume_text) (split_on CHR ''\<newline>'' resume_text),
          introduction = extract_introduction resume_text (lower resume_text)\<rparr>"
  by (simp add: extract_with_rules_def extract_with_rules_by_def resume_locators_def
      and_then_def Let_def)

lemma process_resume_rules:
  "extract_with_rules list_of_set resume_text =
     Inr (process_resume list_of_set hf_api_key resume_text)"
  by (simp add: extract_with_rules_Inr process_resume_def process_resume_by_def
      extract_with_hf_api_def Let_def extract_with_rules_def [symmetric])

lemma process_resume_by_handler:
  "extract_with_rules_by self resume_text = Inl e \<Longrightarrow>
   process_resume_by self hf_api_key resume_text = minimal_profile resume_text"
  by (simp add: process_resume_by_def extract_with_hf_api_def Let_def)

lemma extract_with_rules_by_raises:
  assumes "(\<exists>e. loc_education self (lower t) (split_on CHR ''\<newline>'' t) = Inl e) \<or>
       (\<exists>e. loc_experience self (lower t) (split_on CHR ''\<newline>'' t) = Inl e) \<or>
       (\<exists>e. loc_skills self (lower t) t = Inl e) \<or>
       (\<exists>e. loc_certifications self (lower t) (split_on CHR ''\<newline>'' t) = Inl e) \<or>
       (\<exists>e. loc_projects self (lower t) (split_on CHR ''\<newline>'' t) = Inl e) \<or>
       (\<exists>e. loc_hobbies self (lower t) (split_on CHR ''\<newline>'' t) = Inl e) \<or>
       (\<exists>e. loc_introduction self t (lower t) = Inl e)"
  shows "\<exists>e. extract_with_rules_by self t = Inl e"
  using assms
  by (auto simp: extract_with_rules_by_def and_then_def Let_def split: sum.splits)

lemma py_lower_char_idem: "py_lower_char (py_lower_char c) = py_lower_char c"
proof -
  define n :: int where "n = of_char c"
  have r: "0 \<le> n" "n < 256"
    by (simp_all add: n_def of_char_def)
  show ?thesis
  proof (cases "(65 \<le> n \<and> n \<le> 90) \<or> (192 \<le> n \<and> n \<le> 222 \<and> n \<noteq> 215)")
    case False
    then have "py_lower_char c = c"
      unfolding py_lower_char_def Let_def n_def [symmetric] by auto
    then show ?thesis by simp
  next
    case True
    then have m: "(n + 32) mod 256 = n + 32" by auto
    have low: "py_lower_char c = char_of (n + 32)"
      using True unfolding py_lower_char_def Let_def n_def [symmetric] by auto
    have "\<not> ((65 \<le> n + 32 \<and> n + 32 \<le> 90) \<or>
        (192 \<le> n + 32 \<and> n + 32 \<le> 222 \<and> n + 32 \<noteq> 215))"
      using True by auto
    then have "py_lower_char (char_of (n + 32)) = char_of (n + 32)"
      unfolding py_lower_char_def Let_def of_char_of m by auto
    with low show ?thesis by simp
  qed
qed

lemma lower_idem: "lower (lower s) = lower s"
  by (simp add: lower_def py_lower_char_idem)

lemma lower_append: "lower (a @ b) = lower a @ lower b"
  by (simp add: lower_def)

lemma lower_take: "lower (take n s) = take n (lower s)"
  by (simp add: lower_def take_map)

lemma startswith_take: "startswith s p \<longleftrightarrow> take (length p) s = p"
  by (induction s p rule: startswith.induct) auto

lemma process_resume_profile:
  "process_resume list_of_set hf_api_key resume_text =
     \<lparr>education = extract_education (lower resume_text) (split_on CHR ''\<newline>'' resume_text),
      experience = extract_experience (lower resume_text) (split_on CHR ''\<newline>'' resume_text),
      skills = extract_skills list_of_set (lower resume_text) resume_text,
      hobbies = extract_hobbies (lower resume_text) (split_on CHR ''\<newline>'' resume_text),
      certifications =
        extract_certifications (lower resume_text) (split_on CHR ''\<newline>'' resume_text),
      projects = extract_projects (lower resume_text) (split_on CHR ''\<newline>'' resume_text),
      introduction = extract_introduction resume_text (lower resume_text)\<rparr>"
  using process_resume_rules [of list_of_set resume_text hf_api_key]
  unfolding extract_with_rules_Inr by (simp only: sum.inject)

section \<open>The claims\<close>

subsection \<open>C1: the profile assembler\<close>

text \<open>
  C1. \<open>process_resume\<close> is a total function into profiles, so it never raises and all
  seven fields are there. For every text, every setting of the API key and every listing
  of sets the rule-based
  pipeline returns normally and its profile is the result; certifications, projects and
  hobbies have at most 5 entries, the introduction at most 500 characters, and the year of
  the education, when present, lies between 2000 and 2029. With locators of which one
  raises, the handler returns the minimal profile: the first 500 characters of the text as
  introduction and every other field empty.
\<close>

theorem process_resume_never_raises:
  "extract_with_rules list_of_set resume_text = Inr (process_resume list_of_set hf_api_key resume_text) \<and>
   length (certifications (process_resume list_of_set hf_api_key resume_text)) \<le> 5 \<and>
   length (projects (process_resume list_of_set hf_api_key resume_text)) \<le> 5 \<and>
   length (hobbies (process_resume list_of_set hf_api_key resume_text)) \<le> 5 \<and>
   length (introduction (process_resume list_of_set hf_api_key resume_text)) \<le> 500 \<and>
   (\<forall>y. year (education (process_resume list_of_set hf_api_key resume_text)) = Some y \<longrightarrow>
        2000 \<le> y \<and> y \<le> 2029) \<and>
   (\<forall>self.
      (\<exists>e. loc_education self (lower resume_text) (split_on CHR ''\<newline>'' resume_text) = Inl e) \<or>
      (\<exists>e. loc_experience self (lower resume_text) (split_on CHR ''\<newline>'' resume_text) = Inl e) \<or>
      (\<exists>e. loc_skills self (lower resume_text) resume_text = Inl e) \<or>
      (\<exists>e. loc_certifications self (lower resume_text) (split_on CHR ''\<newline>'' resume_text) = Inl e) \<or>
      (\<exists>e. loc_projects self (lower resume_text) (split_on CHR ''\<newline>'' resume_text) = Inl e) \<or>
      (\<exists>e. loc_hobbies self (lower resume_text) (split_on CHR ''\<newline>'' resume_text) = Inl e) \<or>
      (\<exists>e. loc_introduction self resume_text (lower resume_text) = Inl e) \<longrightarrow>
      process_resume_by self hf_api_key resume_text =
        \<lparr>education = \<lparr>degree = None, year = None\<rparr>,
         experience = \<lparr>title = None\<rparr>,
         skills = [], hobbies = [], certifications = [], projects = [],
         introduction = take 500 resume_text\<rparr>)"
proof -
  let ?p = "process_resume list_of_set hf_api_key resume_text"
  have rules: "extract_with_rules list_of_set resume_text = Inr ?p"
    by (rule process_resume_rules)
  have profile: "?p =
     \<lparr>education = extract_education (lower resume_text) (split_on CHR ''\<newline>'' resume_text),
      experience = extract_experience (lower resume_text) (split_on CHR ''\<newline>'' resume_text),
      skills = extract_skills list_of_set (lower resume_text) resume_text,
      hobbies = extract_hobbies (lower resume_text) (split_on CHR ''\<newline>'' resume_text),
      certifications =
        extract_certifications (lower resume_text) (split_on CHR ''\<newline>'' resume_text),
      projects = extract_projects (lower resume_text) (split_on CHR ''\<newline>'' resume_text),
      introduction = extract_introduction resume_text (lower resume_text)\<rparr>"
    using rules unfolding extract_with_rules_Inr by (simp only: sum.inject)
  have fields:
    "certifications ?p = extract_certifications (lower resume_text) (split_on CHR ''\<newline>'' resume_text)"
    "projects ?p = extract_projects (lower resume_text) (split_on CHR ''\<newline>'' resume_text)"
    "hobbies ?p = extract_hobbies (lower resume_text) (split_on CHR ''\<newline>'' resume_text)"
    "introduction ?p = extract_introduction resume_text (lower resume_text)"
    "education ?p = extract_education (lower resume_text) (split_on CHR ''\<newline>'' resume_text)"
    by (simp_all only: profile candidate_profile.simps)
  have c: "length (certifications ?p) \<le> 5"
    by (simp add: fields extract_certifications_def)
  have p: "length (projects ?p) \<le> 5"
    by (simp add: fields extract_projects_def)
  have h: "length (hobbies ?p) \<le> 5"
    by (simp add: fields length_extract_hobbies)
  have i: "length (introduction ?p) \<le> 500"
    by (simp add: fields length_extract_introduction)
  have y: "\<forall>y. year (education ?p) = Some y \<longrightarrow> 2000 \<le> y \<and> y \<le> 2029"
    by (simp add: fields year_extract_education)
  have m: "process_resume_by self hf_api_key resume_text =
        \<lparr>education = \<lparr>degree = None, year = None\<rparr>,
         experience = \<lparr>title = None\<rparr>,
         skills = [], hobbies = [], certifications = [], projects = [],
         introduction = take 500 resume_text\<rparr>"
    if "\<exists>e. extract_with_rules_by self resume_text = Inl e" for self
    using that by (auto simp: process_resume_by_handler minimal_profile_def)
  show ?thesis
  proof (intro conjI)
    show "\<forall>self.
      (\<exists>e. loc_education self (lower resume_text) (split_on CHR ''\<newline>'' resume_text) = Inl e) \<or>
      (\<exists>e. loc_experience self (lower resume_text) (split_on CHR ''\<newline>'' resume_text) = Inl e) \<or>
      (\<exists>e. loc_skills self (lower resume_text) resume_text = Inl e) \<or>
      (\<exists>e. loc_certifications self (lower resume_text) (split_on CHR ''\<newline>'' resume_text) = Inl e) \<or>
      (\<exists>e. loc_projects self (lower resume_text) (split_on CHR ''\<newline>'' resume_text) = Inl e) \<or>
      (\<exists>e. loc_hobbies self (lower resume_text) (split_on CHR ''\<newline>'' resume_text) = Inl e) \<or>
      (\<exists>e. loc_introduction self resume_text (lower resume_text) = Inl e) \<longrightarrow>
      process_resume_by self hf_api_key resume_text =
        \<lparr>education = \<lparr>degree = None, year = None\<rparr>,
         experience = \<lparr>title = None\<rparr>,
         skills = [], hobbies = [], certifications = [], projects = [],
         introduction = take 500 resume_text\<rparr>"
    proof (intro allI impI)
      fix self :: locators
      assume "(\<exists>e. loc_education self (lower resume_text) (split_on CHR ''\<newline>'' resume_text) = Inl e) \<or>
      (\<exists>e. loc_experience self (lower resume_text) (split_on CHR ''\<newline>'' resume_text) = Inl e) \<or>
      (\<exists>e. loc_skills self (lower resume_text) resume_text = Inl e) \<or>
      (\<exists>e. loc_certifications self (lower resume_text) (split_on CHR ''\<newline>'' resume_text) = Inl e) \<or>
      (\<exists>e. loc_projects self (lower resume_text) (split_on CHR ''\<newline>'' resume_text) = Inl e) \<or>
      (\<exists>e. loc_hobbies self (lower resume_text) (split_on CHR ''\<newline>'' resume_text) = Inl e) \<or>
      (\<exists>e. loc_introduction self resume_text (lower resume_text) = Inl e)"
      then have "\<exists>e. extract_with_rules_by self resume_text = Inl e"
        by (rule extract_with_rules_by_raises)
      then show "process_resume_by self hf_api_key resume_text =
        \<lparr>education = \<lparr>degree = None, year = None\<rparr>,
         experience = \<lparr>title = None\<rparr>,
         skills = [], hobbies = [], certifications = [], projects = [],
         introduction = take 500 resume_text\<rparr>"
        by (rule m)
    qed
  qed (fact rules c p h i y)+
qed

text \<open>
  The theorem at two inputs: a line with the years 2021 and 2018, and a hobbies locator
  that raises.
\<close>

theorem process_resume_never_raises_witness:
  "year (education (process_resume remdups None ''B.Sc., University of Kent, 2021 (started 2018)'')) = Some 2018 \<and>
   process_resume_by
     (resume_locators remdups\<lparr>loc_hobbies := \<lambda>text_lower lines. Inl (OtherError ''unexpected'')\<rparr>)
     None ''Hobbies: chess'' =
     \<lparr>education = \<lparr>degree = None, year = None\<rparr>,
      experience = \<lparr>title = None\<rparr>,
      skills = [], hobbies = [], certifications = [], projects = [],
      introduction = ''Hobbies: chess''\<rparr>"
proof -
  have a: "year (education (process_resume remdups None ''B.Sc., University of Kent, 2021 (started 2018)'')) = Some 2018"
    by code_simp
  note thm1 = process_resume_never_raises
    [of remdups "''B.Sc., University of Kent, 2021 (started 2018)''" None]
  have "(2000::int) \<le> 2018 \<and> (2018::int) \<le> 2029"
    by (rule thm1 [THEN conjunct2, THEN conjunct2, THEN conjunct2, THEN conjunct2,
          THEN conjunct2, THEN conjunct1, THEN spec, THEN mp, OF a])
  note thm2 = process_resume_never_raises [of remdups "''Hobbies: chess''" None]
  have "\<exists>e. loc_hobbies
      (resume_locators remdups\<lparr>loc_hobbies := \<lambda>text_lower lines. Inl (OtherError ''unexpected'')\<rparr>)
      (lower ''Hobbies: chess'') (split_on CHR ''\<newline>'' ''Hobbies: chess'') = Inl e"
    by simp
  then have "process_resume_by
     (resume_locators remdups\<lparr>loc_hobbies := \<lambda>text_lower lines. Inl (OtherError ''unexpected'')\<rparr>)
     None ''Hobbies: chess'' =
     \<lparr>education = \<lparr>degree = None, year = None\<rparr>,
      experience = \<lparr>title = None\<rparr>,
      skills = [], hobbies = [], certifications = [], projects = [],
      introduction = take 500 ''Hobbies: chess''\<rparr>"
    by (intro thm2 [THEN conjunct2, THEN conjunct2, THEN conjunct2, THEN conjunct2,
          THEN conjunct2, THEN conjunct2, THEN spec, THEN mp]) blast
  then show ?thesis using a by simp
qed

subsection \<open>C2: answers when the hosted inference fails\<close>

text \<open>
  C2 as stated fails on a timeout, on status 503 and on a response of status 200 whose
  body is not a list or a string: \<open>_call_hf_api\<close> has a branch of its own for each, which
  returns a fixed message and does not call the fallback answerer.
\<close>

theorem call_hf_api_timeout_counterexample:
  "call_hf_api (\<lambda>v :: int json. []) Timeout ''What skills?'' =
     ''Request timed out. Please try again.'' \<and>
   call_hf_api (\<lambda>v :: int json. []) (Response 503 ''Service Unavailable'' None) ''What skills?'' =
     ''The AI model is currently loading. Please try again in a few seconds.'' \<and>
   call_hf_api (\<lambda>v :: int json. []) (Response 200 ''{}'' (Some (JDict []))) ''What skills?'' =
     ''I couldn't generate a proper answer. Please try rephrasing your question.'' \<and>
   fallback_answer ''What skills?'' =
     ''Please check the skills section in the candidate's profile for detailed information.'' \<and>
   call_hf_api (\<lambda>v :: int json. []) Timeout ''What skills?'' \<noteq> fallback_answer ''What skills?'' \<and>
   call_hf_api (\<lambda>v :: int json. []) (Response 503 ''Service Unavailable'' None) ''What skills?'' \<noteq>
     fallback_answer ''What skills?'' \<and>
   call_hf_api (\<lambda>v :: int json. []) (Response 200 ''{}'' (Some (JDict []))) ''What skills?'' \<noteq>
     fallback_answer ''What skills?''"
  by code_simp

text \<open>
  C2, amended. \<open>_call_hf_api\<close> always returns a string, and every outcome of the request
  is one of these. A timeout gives the fixed timed-out message and status 503 the fixed
  model-loading message. Any other exception of the request, any status other than 200
  and 503, and a body of status 200 that does not decode give the fallback answerer's
  output on the prompt. A decoded body of status 200 gives: the fixed could-not-generate
  message when it is null, a boolean, a number, an object or the empty list; its trimmed
  text when it is a string; and for a non-empty list, by its first element, the fallback
  answerer's output when the inspection raises (null, a boolean, a number, a string or a
  list containing \<open>generated_text\<close>, an object whose \<open>generated_text\<close>, or else \<open>text\<close>, is
  not a string), the trimmed string found (the element itself, or under \<open>generated_text\<close>,
  or else \<open>text\<close>), and otherwise the trimmed \<open>str\<close> of the element.
\<close>

theorem call_hf_api_always_answers:
  "call_hf_api py_str Timeout prompt = ''Request timed out. Please try again.'' \<and>
   call_hf_api py_str (Response 503 body decoded) prompt =
     ''The AI model is currently loading. Please try again in a few seconds.'' \<and>
   call_hf_api py_str RequestError prompt = fallback_answer prompt \<and>
   (status_code \<noteq> 200 \<and> status_code \<noteq> 503 \<longrightarrow>
      call_hf_api py_str (Response status_code body decoded) prompt = fallback_answer prompt) \<and>
   call_hf_api py_str (Response 200 body None) prompt = fallback_answer prompt \<and>
   call_hf_api py_str (Response 200 body (Some JNull)) prompt =
     ''I couldn't generate a proper answer. Please try rephrasing your question.'' \<and>
   call_hf_api py_str (Response 200 body (Some (JBool b))) prompt =
     ''I couldn't generate a proper answer. Please try rephrasing your question.'' \<and>
   call_hf_api py_str (Response 200 body (Some (JNum n))) prompt =
     ''I couldn't generate a proper answer. Please try rephrasing your question.'' \<and>
   call_hf_api py_str (Response 200 body (Some (JDict d))) prompt =
     ''I couldn't generate a proper answer. Please try rephrasing your question.'' \<and>
   call_hf_api py_str (Response 200 body (Some (JList []))) prompt =
     ''I couldn't generate a proper answer. Please try rephrasing your question.'' \<and>
   call_hf_api py_str (Response 200 body (Some (JStr s))) prompt = strip s \<and>
   call_hf_api py_str (Response 200 body (Some (JList (JNull # others)))) prompt =
     fallback_answer prompt \<and>
   call_hf_api py_str (Response 200 body (Some (JList (JBool b # others)))) prompt =
     fallback_answer prompt \<and>
   call_hf_api py_str (Response 200 body (Some (JList (JNum n # others)))) prompt =
     fallback_answer prompt \<and>
   call_hf_api py_str (Response 200 body (Some (JList (JStr s # others)))) prompt =
     (if contains s ''generated_text'' then fallback_answer prompt else strip s) \<and>
   call_hf_api py_str (Response 200 body (Some (JList (JList l # others)))) prompt =
     (if JStr ''generated_text'' \<in> set l then fallback_answer prompt
      else strip (py_str (JList l))) \<and>
   call_hf_api py_str (Response 200 body (Some (JList (JDict d # others)))) prompt =
     (case map_of d ''generated_text'' of
        Some (JStr s) \<Rightarrow> strip s
      | Some other \<Rightarrow> fallback_answer prompt
      | None \<Rightarrow>
          (case map_of d ''text'' of
             Some (JStr s) \<Rightarrow> strip s
           | Some other \<Rightarrow> fallback_answer prompt
           | None \<Rightarrow> strip (py_str (JDict d))))"
proof -
  have r: "call_hf_api py_str (Response 200 body (Some result)) prompt =
      (case read_result py_str result of Inr answer \<Rightarrow> answer | Inl e \<Rightarrow> fallback_answer prompt)"
    for result
    by (simp add: call_hf_api_def)
  have dict: "call_hf_api py_str (Response 200 body (Some (JList (JDict d # others)))) prompt =
     (case map_of d ''generated_text'' of
        Some (JStr s) \<Rightarrow> strip s
      | Some other \<Rightarrow> fallback_answer prompt
      | None \<Rightarrow>
          (case map_of d ''text'' of
             Some (JStr s) \<Rightarrow> strip s
           | Some other \<Rightarrow> fallback_answer prompt
           | None \<Rightarrow> strip (py_str (JDict d))))"
    unfolding r by (simp add: read_result_def strip_of_def split: option.split json.split)
  have rest: "call_hf_api py_str Timeout prompt = ''Request timed out. Please try again.''"
    "call_hf_api py_str (Response 503 body decoded) prompt =
     ''The AI model is currently loading. Please try again in a few seconds.''"
    "call_hf_api py_str RequestError prompt = fallback_answer prompt"
    "status_code \<noteq> 200 \<and> status_code \<noteq> 503 \<longrightarrow>
      call_hf_api py_str (Response status_code body decoded) prompt = fallback_answer prompt"
    "call_hf_api py_str (Response 200 body None) prompt = fallback_answer prompt"
    by (simp_all add: call_hf_api_def)
  have shapes: "call_hf_api py_str (Response 200 body (Some JNull)) prompt =
     ''I couldn't generate a proper answer. Please try rephrasing your question.''"
    "call_hf_api py_str (Response 200 body (Some (JBool b))) prompt =
     ''I couldn't generate a proper answer. Please try rephrasing your question.''"
    "call_hf_api py_str (Response 200 body (Some (JNum n))) prompt =
     ''I couldn't generate a proper answer. Please try rephrasing your question.''"
    "call_hf_api py_str (Response 200 body (Some (JDict d))) prompt =
     ''I couldn't generate a proper answer. Please try rephrasing your question.''"
    "call_hf_api py_str (Response 200 body (Some (JList []))) prompt =
     ''I couldn't generate a proper answer. Please try rephrasing your question.''"
    "call_hf_api py_str (Response 200 body (Some (JStr s))) prompt = strip s"
    unfolding r by (simp_all add: read_result_def)
  have firsts: "call_hf_api py_str (Response 200 body (Some (JList (JNull # others)))) prompt =
     fallback_answer prompt"
    "call_hf_api py_str (Response 200 body (Some (JList (JBool b # others)))) prompt =
     fallback_answer prompt"
    "call_hf_api py_str (Response 200 body (Some (JList (JNum n # others)))) prompt =
     fallback_answer prompt"
    "call_hf_api py_str (Response 200 body (Some (JList (JStr s # others)))) prompt =
     (if contains s ''generated_text'' then fallback_answer prompt else strip s)"
    "call_hf_api py_str (Response 200 body (Some (JList (JList l # others)))) prompt =
     (if JStr ''generated_text'' \<in> set l then fallback_answer prompt
      else strip (py_str (JList l)))"
    unfolding r by (simp_all add: read_result_def)
  show ?thesis
    by (intro conjI) (fact rest shapes firsts dict)+
qed

theorem call_hf_api_always_answers_witness:
  "call_hf_api (\<lambda>v :: int json. []) (Response 500 ''Internal Server Error'' None) ''What skills?'' =
     ''Please check the skills section in the candidate's profile for detailed information.'' \<and>
   call_hf_api (\<lambda>v :: int json. []) (Response 200 ''200''
       (Some (JDict [(''error'', JStr ''overloaded'')]))) ''What skills?'' =
     ''I couldn't generate a proper answer. Please try rephrasing your question.'' \<and>
   call_hf_api (\<lambda>v :: int json. []) (Response 200 ''200''
       (Some (JList [JDict [(''generated_text'', JNum 5)]]))) ''What skills?'' =
     ''Please check the skills section in the candidate's profile for detailed information.'' \<and>
   call_hf_api (\<lambda>v :: int json. '' {foo: 1} '') (Response 200 ''200''
       (Some (JList [JDict [(''foo'', JNum 1)]]))) ''What skills?'' = ''{foo: 1}'' \<and>
   call_hf_api (\<lambda>v :: int json. []) (Response 200 ''200''
       (Some (JList [JDict [(''generated_text'', JStr '' Python and SQL. '')]]))) ''What skills?'' =
     ''Python and SQL.''"
proof -
  have f: "fallback_answer ''What skills?'' =
     ''Please check the skills section in the candidate's profile for detailed information.''"
    by code_simp
  have s: "(500::nat) \<noteq> 200 \<and> (500::nat) \<noteq> 503"
    by simp
  have st: "strip '' {foo: 1} '' = ''{foo: 1}''" "strip '' Python and SQL. '' = ''Python and SQL.''"
    by code_simp+
  have 1: "call_hf_api (\<lambda>v :: int json. []) (Response 500 ''Internal Server Error'' None) ''What skills?'' =
      fallback_answer ''What skills?''"
    by (rule call_hf_api_always_answers [THEN conjunct2, THEN conjunct2, THEN conjunct2,
          THEN conjunct1, THEN mp, OF s])
  have 2: "call_hf_api (\<lambda>v :: int json. []) (Response 200 ''200''
       (Some (JDict [(''error'', JStr ''overloaded'')]))) ''What skills?'' =
     ''I couldn't generate a proper answer. Please try rephrasing your question.''"
    by (rule call_hf_api_always_answers [THEN conjunct2, THEN conjunct2, THEN conjunct2,
          THEN conjunct2, THEN conjunct2, THEN conjunct2, THEN conjunct2, THEN conjunct2,
          THEN conjunct1])
  from call_hf_api_always_answers [where py_str = "\<lambda>v :: int json. []"
      and prompt = "''What skills?''" and body = "''200''"
      and d = "[(''generated_text'', JNum 5)]" and others = "[]"]
  have 3: "call_hf_api (\<lambda>v :: int json. []) (Response 200 ''200''
       (Some (JList [JDict [(''generated_text'', JNum 5)]]))) ''What skills?'' =
     fallback_answer ''What skills?''"
    by simp
  from call_hf_api_always_answers [where py_str = "\<lambda>v :: int json. []"
      and prompt = "''What skills?''" and body = "''200''"
      and d = "[(''generated_text'', JStr '' Python and SQL. '')]" and others = "[]"]
  have 5: "call_hf_api (\<lambda>v :: int json. []) (Response 200 ''200''
       (Some (JList [JDict [(''generated_text'', JStr '' Python and SQL. '')]]))) ''What skills?'' =
     strip '' Python and SQL. ''"
    by simp
  from call_hf_api_always_answers [where py_str = "\<lambda>v :: int json. '' {foo: 1} ''"
      and prompt = "''What skills?''" and body = "''200''"
      and d = "[(''foo'', JNum 1)]" and others = "[]"]
  have 4: "call_hf_api (\<lambda>v :: int json. '' {foo: 1} '') (Response 200 ''200''
       (Some (JList [JDict [(''foo'', JNum 1)]]))) ''What skills?'' = strip '' {foo: 1} ''"
    by simp
  from 1 2 3 4 5 show ?thesis unfolding f st by (intro conjI)
qed

subsection \<open>C3: the year of the education\<close>

lemma extract_education_first_match:
  "\<forall>l\<in>set pre. \<not> has_keyword education_keywords (lower l) \<Longrightarrow>
   has_keyword education_keywords (lower line) \<Longrightarrow>
   extract_education text_lower (pre @ line # post) =
     \<lparr>degree = Some (strip line), year = year_of_line line\<rparr>"
  by (induction pre) simp_all

lemma year_of_line_least:
  assumes "2000 \<le> y" "y \<le> 2029" "contains line (py_str_int y)"
  shows "\<exists>m. year_of_line line = Some m \<and> 2000 \<le> m \<and> m \<le> y \<and>
           contains line (py_str_int m) \<and>
           (\<forall>k. 2000 \<le> k \<and> k < m \<longrightarrow> \<not> contains line (py_str_int k))"
proof -
  have "y \<in> set [2000..2029]"
    using assms(1,2) by (simp only: set_upto atLeastAtMost_iff)
  then have "year_of_line line \<noteq> None"
    unfolding year_of_line_def find_None_iff using assms(3) by blast
  then obtain m where m: "year_of_line line = Some m" by blast
  then have "2000 \<le> m \<and> m \<le> 2029 \<and> contains line (py_str_int m) \<and>
    (\<forall>k. 2000 \<le> k \<and> k < m \<longrightarrow> \<not> contains line (py_str_int k))"
    unfolding year_of_line_def find_upto_Some .
  then have props: "2000 \<le> m" "m \<le> 2029" "contains line (py_str_int m)"
    "\<forall>k. 2000 \<le> k \<and> k < m \<longrightarrow> \<not> contains line (py_str_int k)"
    by blast+
  have "m \<le> y"
  proof (rule ccontr)
    assume "\<not> m \<le> y"
    then have "2000 \<le> y \<and> y < m" using assms by simp
    then show False using props(4) assms(3) by blast
  qed
  with m props show ?thesis by blast
qed

text \<open>
  C3. When the first line with an education keyword contains the decimal form of a year
  from 2000 to 2029, the education locator sets the degree to that line, trimmed, and the
  year to the smallest such year that is a substring of the line. The line
  \<open>Bachelor of Science, 2018, Education\<close> gives that line as degree and the year 2018.
\<close>

theorem extract_education_smallest_year:
  "extract_education text_lower [''Bachelor of Science, 2018, Education''] =
     \<lparr>degree = Some ''Bachelor of Science, 2018, Education'', year = Some 2018\<rparr> \<and>
   (\<forall>pre line post y.
      (\<forall>l\<in>set pre. \<not> has_keyword education_keywords (lower l)) \<and>
      has_keyword education_keywords (lower line) \<and>
      2000 \<le> y \<and> y \<le> 2029 \<and> contains line (py_str_int y) \<longrightarrow>
      (\<exists>m. extract_education text_lower (pre @ line # post) =
             \<lparr>degree = Some (strip line), year = Some m\<rparr> \<and>
           2000 \<le> m \<and> m \<le> y \<and> contains line (py_str_int m) \<and>
           (\<forall>k. 2000 \<le> k \<and> k < m \<longrightarrow> \<not> contains line (py_str_int k))))"
proof (intro conjI allI impI)
  show "extract_education text_lower [''Bachelor of Science, 2018, Education''] =
     \<lparr>degree = Some ''Bachelor of Science, 2018, Education'', year = Some 2018\<rparr>"
    by code_simp
next
  fix pre line post and y :: int
  assume h: "(\<forall>l\<in>set pre. \<not> has_keyword education_keywords (lower l)) \<and>
      has_keyword education_keywords (lower line) \<and>
      2000 \<le> y \<and> y \<le> 2029 \<and> contains line (py_str_int y)"
  then have e: "extract_education text_lower (pre @ line # post) =
     \<lparr>degree = Some (strip line), year = year_of_line line\<rparr>"
    by (simp add: extract_education_first_match)
  from h obtain m where "year_of_line line = Some m \<and> 2000 \<le> m \<and> m \<le> y \<and>
           contains line (py_str_int m) \<and>
           (\<forall>k. 2000 \<le> k \<and> k < m \<longrightarrow> \<not> contains line (py_str_int k))"
    using year_of_line_least [of y line] by blast
  with e show "\<exists>m. extract_education text_lower (pre @ line # post) =
             \<lparr>degree = Some (strip line), year = Some m\<rparr> \<and>
           2000 \<le> m \<and> m \<le> y \<and> contains line (py_str_int m) \<and>
           (\<forall>k. 2000 \<le> k \<and> k < m \<longrightarrow> \<not> contains line (py_str_int k))"
    by auto
qed

text \<open>A line with the years 2021 and 2018, after a line without keyword: 2018 wins.\<close>

theorem extract_education_smallest_year_witness:
  "extract_education [] [''Jane Doe'', '' M.Sc., University of Kent, 2021 (B.Sc. 2018) '', ''PhD 2024''] =
     \<lparr>degree = Some ''M.Sc., University of Kent, 2021 (B.Sc. 2018)'', year = Some 2018\<rparr>"
proof -
  let ?line = "'' M.Sc., University of Kent, 2021 (B.Sc. 2018) ''"
  have a: "\<forall>l\<in>set [''Jane Doe'']. \<not> has_keyword education_keywords (lower l)"
    by code_simp
  have b: "has_keyword education_keywords (lower ?line)"
    by code_simp
  have c: "(2000::int) \<le> 2021 \<and> (2021::int) \<le> 2029 \<and> contains ?line (py_str_int 2021)"
    by code_simp
  have s: "strip ?line = ''M.Sc., University of Kent, 2021 (B.Sc. 2018)''"
    by code_simp
  have d: "contains ?line (py_str_int 2018)"
    by code_simp
  obtain m where m: "extract_education [] ([''Jane Doe''] @ ?line # [''PhD 2024'']) =
             \<lparr>degree = Some (strip ?line), year = Some m\<rparr>"
     "2000 \<le> m" "m \<le> 2021" "contains ?line (py_str_int m)"
     "\<forall>k. 2000 \<le> k \<and> k < m \<longrightarrow> \<not> contains ?line (py_str_int k)"
    using extract_education_smallest_year [of "[]", THEN conjunct2, rule_format,
        of "[''Jane Doe'']" ?line 2021 "[''PhD 2024'']"] a b c
    by blast
  have le: "m \<le> 2018"
  proof (rule ccontr)
    assume "\<not> m \<le> 2018"
    then have "2000 \<le> (2018::int) \<and> 2018 < m" by simp
    then show False using m(5) d by blast
  qed
  have low: "\<forall>k\<in>set [2000..2017]. \<not> contains ?line (py_str_int k)"
    by code_simp
  have "\<not> m < 2018"
  proof
    assume "m < 2018"
    then have "m \<in> set [2000..2017]" using m(2) by (simp only: set_upto atLeastAtMost_iff) arith
    then show False using low m(4) by blast
  qed
  with le have "m = 2018" by simp
  with m(1) s show ?thesis by simp
qed

subsection \<open>C4: the graduation year of the fallback\<close>

text \<open>
  C4. The claim asks for the last four-digit year of the prompt in the answer. The
  pattern \<open>\b(19|20)\d{2}\b\<close> has a capturing group, so \<open>re.findall\<close> returns the text
  of the group, the first two digits, and the answer reports \<open>20\<close> for the year 2018.
  Without a year the answer is the not-available message, as claimed.
\<close>

theorem fallback_answer_graduation_year:
  "contains (lower ''Education: B.Sc. 2018. When was the graduation?'') ''graduation'' \<and>
   contains (lower ''Education: B.Sc. 2018. When was the graduation?'') ''education'' \<and>
   findall_years 0 False ''Education: B.Sc. 2018. When was the graduation?'' = [''20''] \<and>
   fallback_answer ''Education: B.Sc. 2018. When was the graduation?'' =
     ''The candidate finished graduation in 20.'' \<and>
   \<not> contains (fallback_answer ''Education: B.Sc. 2018. When was the graduation?'') ''2018'' \<and>
   fallback_answer ''Education: B.Sc. When was the graduation?'' =
     ''The graduation date information is not explicitly available in the candidate's data.''"
  by code_simp

subsection \<open>C5: the title of the experience\<close>

lemma extract_experience_first_match:
  "\<forall>l\<in>set pre. \<not> has_keyword experience_keywords (lower l) \<Longrightarrow>
   has_keyword experience_keywords (lower line) \<Longrightarrow>
   extract_experience text_lower (pre @ line # post) =
     (case post of [] \<Rightarrow> \<lparr>title = None\<rparr> | next_line # _ \<Rightarrow> \<lparr>title = Some (strip next_line)\<rparr>)"
  by (induction pre) (simp_all split: list.splits)

text \<open>
  C5 as stated fails where the matching line is the last line: the guard
  \<open>i + 1 < len(lines)\<close> leaves the mapping empty, so there is no title, not an empty one.
  The text \<open>Work\<close> is one line, it matches, and the title is absent.
\<close>

theorem extract_experience_last_line_counterexample:
  "has_keyword experience_keywords (lower ''Work'') \<and>
   split_on CHR ''\<newline>'' ''Work'' = [''Work''] \<and>
   title (extract_experience (lower ''Work'') (split_on CHR ''\<newline>'' ''Work'')) = None \<and>
   title (extract_experience (lower ''Work'') (split_on CHR ''\<newline>'' ''Work'')) \<noteq> Some ''''"
  by code_simp

text \<open>
  C5, amended. At the first line with an experience keyword: when it is the last line the
  experience mapping stays empty; otherwise the title is the trimmed text of the line that
  follows, which is the empty string when that line is blank.
\<close>

theorem extract_experience_title:
  "(\<forall>l\<in>set pre. \<not> has_keyword experience_keywords (lower l)) \<and>
   has_keyword experience_keywords (lower line) \<longrightarrow>
   extract_experience text_lower (pre @ [line]) = \<lparr>title = None\<rparr> \<and>
   extract_experience text_lower (pre @ line # next_line # post) =
     \<lparr>title = Some (strip next_line)\<rparr> \<and>
   (strip next_line = [] \<longrightarrow>
      extract_experience text_lower (pre @ line # next_line # post) = \<lparr>title = Some ''''\<rparr>)"
  by (simp add: extract_experience_first_match)

theorem extract_experience_title_witness:
  "extract_experience [] [''Jane Doe'', ''Work''] = \<lparr>title = None\<rparr> \<and>
   extract_experience [] [''Jane Doe'', ''Work'', '' Engineer '', ''Acme''] =
     \<lparr>title = Some ''Engineer''\<rparr> \<and>
   extract_experience [] [''Jane Doe'', ''Work'', ''  '', ''Acme''] = \<lparr>title = Some ''''\<rparr>"
proof -
  have a: "\<forall>l\<in>set [''Jane Doe'']. \<not> has_keyword experience_keywords (lower l)"
    by code_simp
  have b: "has_keyword experience_keywords (lower ''Work'')"
    by code_simp
  have s: "strip '' Engineer '' = ''Engineer''" "strip ''  '' = []"
    by code_simp+
  note t1 = extract_experience_title [of "[''Jane Doe'']" "''Work''" "[]" "'' Engineer ''" "[''Acme'']",
      THEN mp, OF conjI, OF a b]
  note t2 = extract_experience_title [of "[''Jane Doe'']" "''Work''" "[]" "''  ''" "[''Acme'']",
      THEN mp, OF conjI, OF a b]
  from t1 t2 s show ?thesis by simp
qed

subsection \<open>C6: the window of the projects\<close>

lemma collect_projects_take:
  "length acc < 5 \<Longrightarrow>
   collect_projects acc window =
     acc @ take (5 - length acc)
             (filter (\<lambda>l. l \<noteq> [] \<and> length l > 10) (map strip window))"
proof (induction window arbitrary: acc)
  case Nil
  then show ?case by simp
next
  case (Cons line rest)
  show ?case
  proof (cases "strip line \<noteq> [] \<and> length (strip line) > 10")
    case False
    then show ?thesis using Cons by (auto simp: Let_def)
  next
    case True
    show ?thesis
    proof (cases "length acc = 4")
      case True
      with \<open>strip line \<noteq> [] \<and> length (strip line) > 10\<close> show ?thesis
        by (simp add: Let_def)
    next
      case False
      then have less: "length (acc @ [strip line]) < 5" using Cons.prems by simp
      have "5 - length acc = Suc (5 - length (acc @ [strip line]))"
        using less by simp
      then show ?thesis
        using True less Cons.IH [OF less] by (simp add: Let_def)
    qed
  qed
qed

lemma map_nth_range:
  "b \<le> length xs \<Longrightarrow> map (\<lambda>j. xs ! j) [a ..< b] = take (b - a) (drop a xs)"
  by (rule nth_equalityI) auto

lemma window_lines:
  "map (\<lambda>j. (seen @ line # post) ! j)
     [length seen + 1 ..< min (length seen + 10) (length (seen @ line # post))] = take 9 post"
proof -
  have "map (\<lambda>j. (seen @ line # post) ! j)
     [length seen + 1 ..< min (length seen + 10) (length (seen @ line # post))] =
     take (min (length seen + 10) (length (seen @ line # post)) - (length seen + 1))
       (drop (length seen + 1) (seen @ line # post))"
    by (rule map_nth_range) simp
  also have "drop (length seen + 1) (seen @ line # post) = post"
    by simp
  also have "min (length seen + 10) (length (seen @ line # post)) - (length seen + 1) =
      min 9 (length post)"
    by simp
  also have "take (min 9 (length post)) post = take 9 post"
    by (simp add: min_def)
  finally show ?thesis .
qed

lemma extract_projects_from_first_match:
  "\<forall>l\<in>set pre. \<not> has_keyword project_keywords (lower l) \<Longrightarrow>
   has_keyword project_keywords (lower line) \<Longrightarrow>
   extract_projects_from (length seen) (seen @ pre @ line # post) (pre @ line # post) =
     collect_projects [] (take 9 post)"
proof (induction pre arbitrary: seen)
  case Nil
  then show ?case using window_lines [of seen line post] by simp
next
  case (Cons l pre)
  have "extract_projects_from (length (seen @ [l])) ((seen @ [l]) @ pre @ line # post)
          (pre @ line # post) = collect_projects [] (take 9 post)"
    using Cons.prems by (intro Cons.IH) auto
  then show ?case using Cons.prems by simp
qed

lemma extract_projects_first_match:
  assumes "\<forall>l\<in>set pre. \<not> has_keyword project_keywords (lower l)"
    and "has_keyword project_keywords (lower line)"
  shows "extract_projects text_lower (pre @ line # post) = qualifying_lines 9 post"
proof -
  have "extract_projects_from 0 (pre @ line # post) (pre @ line # post) =
     collect_projects [] (take 9 post)"
    using extract_projects_from_first_match [OF assms, of "[]" post] by simp
  then show ?thesis
    by (simp add: extract_projects_def qualifying_lines_def collect_projects_take)
qed

text \<open>
  C6 as stated fails at the tenth line after the matching line: the window is
  \<open>range(i+1, min(i+10, len(lines)))\<close>, the nine lines \<open>i+1\<close> to \<open>i+9\<close>. After the line
  \<open>Projects\<close> and nine short lines, a long tenth line is not collected, though a window of
  ten lines holds it.
\<close>

theorem extract_projects_ten_lines_counterexample:
  "has_keyword project_keywords (lower ''Projects'') \<and>
   extract_projects []
     [''Projects'', ''a'', ''b'', ''c'', ''d'', ''e'', ''f'', ''g'', ''h'', ''i'',
      ''resume parser in Python''] = [] \<and>
   qualifying_lines 10
     [''a'', ''b'', ''c'', ''d'', ''e'', ''f'', ''g'', ''h'', ''i'',
      ''resume parser in Python''] = [''resume parser in Python'']"
  by code_simp

text \<open>
  C6, amended. At the first line with a project keyword the locator returns, in order,
  the first five of the trimmed non-blank lines longer than 10 characters among the next
  nine lines; so the result never has more than five entries.
\<close>

theorem extract_projects_nine_lines:
  "(\<forall>l\<in>set pre. \<not> has_keyword project_keywords (lower l)) \<and>
   has_keyword project_keywords (lower line) \<longrightarrow>
   extract_projects text_lower (pre @ line # post) =
     take 5 (filter (\<lambda>l. l \<noteq> [] \<and> length l > 10) (map strip (take 9 post))) \<and>
   length (extract_projects text_lower (pre @ line # post)) \<le> 5"
  by (simp add: extract_projects_first_match qualifying_lines_def)

theorem extract_projects_nine_lines_witness:
  "extract_projects []
     [''Jane Doe'', ''Portfolio'', '' resume parser in Python '', ''short'', '''',
      ''a chess engine in Rust''] =
     [''resume parser in Python'', ''a chess engine in Rust'']"
proof -
  have a: "\<forall>l\<in>set [''Jane Doe'']. \<not> has_keyword project_keywords (lower l)"
    by code_simp
  have b: "has_keyword project_keywords (lower ''Portfolio'')"
    by code_simp
  have c: "take 5 (filter (\<lambda>l. l \<noteq> [] \<and> length l > 10)
       (map strip (take 9 ['' resume parser in Python '', ''short'', '''',
          ''a chess engine in Rust'']))) =
       [''resume parser in Python'', ''a chess engine in Rust'']"
    by code_simp
  note t = extract_projects_nine_lines [of "[''Jane Doe'']" "''Portfolio''" "[]"
      "['' resume parser in Python '', ''short'', '''', ''a chess engine in Rust'']",
      THEN mp, OF conjI, OF a b, THEN conjunct1]
  from t show ?thesis by (simp only: c append_Cons append_Nil)
qed

subsection \<open>C7: the introduction without keyword\<close>

lemma intro_by_keyword_None:
  "\<not> has_keyword kws text_lower \<Longrightarrow> intro_by_keyword kws resume_text text_lower = None"
  by (induction kws) (simp_all add: has_keyword_def)

text \<open>
  C7 as stated fails where the first 300 characters begin or end with whitespace: the
  fallback is \<open>resume_text[:300].strip()\<close>. The text of a space and \<open>Jane Doe\<close> has no
  keyword and no blank line, and its introduction is without the space.
\<close>

theorem extract_introduction_fallback_counterexample:
  "\<not> has_keyword intro_keywords (lower '' Jane Doe'') \<and>
   \<not> contains '' Jane Doe'' ''\<newline>\<newline>'' \<and>
   take 300 '' Jane Doe'' = '' Jane Doe'' \<and>
   extract_introduction '' Jane Doe'' (lower '' Jane Doe'') = ''Jane Doe'' \<and>
   extract_introduction '' Jane Doe'' (lower '' Jane Doe'') \<noteq> take 300 '' Jane Doe''"
  by code_simp

text \<open>
  C7, amended. For a text without introduction keyword and without blank-line break the
  introduction is the first 300 characters of the text (the whole text when shorter)
  with leading and trailing whitespace removed; it is exactly those characters when the
  first and the last of them are not whitespace.
\<close>

theorem extract_introduction_fallback:
  "\<not> has_keyword intro_keywords (lower resume_text) \<and>
   \<not> contains resume_text ''\<newline>\<newline>'' \<longrightarrow>
   extract_introduction resume_text (lower resume_text) = strip (take 300 resume_text) \<and>
   (\<not> py_isspace (hd resume_text) \<and> \<not> py_isspace (last (take 300 resume_text)) \<longrightarrow>
      extract_introduction resume_text (lower resume_text) = take 300 resume_text)"
proof (intro impI conjI)
  assume h: "\<not> has_keyword intro_keywords (lower resume_text) \<and>
   \<not> contains resume_text ''\<newline>\<newline>''"
  have "length (strip (take 300 resume_text)) \<le> 300"
    using length_strip_le [of "take 300 resume_text"] by simp
  then show e: "extract_introduction resume_text (lower resume_text) =
      strip (take 300 resume_text)"
    using h by (simp add: extract_introduction_def intro_by_keyword_None)
  assume n: "\<not> py_isspace (hd resume_text) \<and> \<not> py_isspace (last (take 300 resume_text))"
  show "extract_introduction resume_text (lower resume_text) = take 300 resume_text"
  proof (cases "take 300 resume_text")
    case Nil
    then show ?thesis using e by (simp add: strip_def)
  next
    case (Cons c cs)
    then have "hd (take 300 resume_text) = hd resume_text"
      by (cases resume_text) auto
    then have 1: "dropWhile py_isspace (take 300 resume_text) = take 300 resume_text"
      using n Cons by (simp add: dropWhile_eq_self_iff)
    have "rev (take 300 resume_text) \<noteq> []" using Cons by simp
    moreover have "hd (rev (take 300 resume_text)) = last (take 300 resume_text)"
      using Cons by (simp add: hd_rev)
    ultimately have 2: "dropWhile py_isspace (rev (take 300 resume_text)) =
        rev (take 300 resume_text)"
      using n by (simp add: dropWhile_eq_self_iff)
    show ?thesis using e 1 2 by (simp add: strip_def)
  qed
qed

theorem extract_introduction_fallback_witness:
  "extract_introduction '' Jane Doe, engineer '' (lower '' Jane Doe, engineer '') =
     ''Jane Doe, engineer'' \<and>
   extract_introduction ''Jane Doe'' (lower ''Jane Doe'') = ''Jane Doe''"
proof -
  have a: "\<not> has_keyword intro_keywords (lower '' Jane Doe, engineer '') \<and>
     \<not> contains '' Jane Doe, engineer '' ''\<newline>\<newline>''"
    by code_simp
  have b: "strip (take 300 '' Jane Doe, engineer '') = ''Jane Doe, engineer''"
    by code_simp
  have c: "\<not> has_keyword intro_keywords (lower ''Jane Doe'') \<and>
     \<not> contains ''Jane Doe'' ''\<newline>\<newline>''"
    by code_simp
  have d: "\<not> py_isspace (hd ''Jane Doe'') \<and> \<not> py_isspace (last (take 300 ''Jane Doe''))"
    by code_simp
  have e: "take 300 ''Jane Doe'' = ''Jane Doe''"
    by code_simp
  note t1 = extract_introduction_fallback [of "'' Jane Doe, engineer ''", THEN mp, OF a,
      THEN conjunct1]
  note t2 = extract_introduction_fallback [of "''Jane Doe''", THEN mp, OF c,
      THEN conjunct2, THEN mp, OF d]
  from t1 t2 show ?thesis by (simp only: b e)
qed

subsection \<open>C8: the skills answer of the fallback\<close>

lemma skills_search_skip:
  "lower a = a \<Longrightarrow> lower r = r \<Longrightarrow> \<not> contains (a @ take 6 r) ''skills:'' \<Longrightarrow>
   skills_search (a @ r) = skills_search r"
proof (induction a)
  case Nil
  then show ?case by simp
next
  case (Cons c a)
  have fixed: "lower (c # a @ r) = c # a @ r"
    using lower_append [of "c # a" r] by (simp only: Cons.prems(1,2) append_Cons)
  have no_start: "\<not> startswith ((c # a) @ take 6 r) ''skills:''"
    using Cons.prems(3) by simp
  have len: "length ''skills:'' = 7"
    by simp
  have eq: "take 7 ((c # a) @ take 6 r) = take 7 (c # a @ r)"
    by (simp add: min_def)
  have "take 7 ((c # a) @ take 6 r) \<noteq> ''skills:''"
    using no_start unfolding startswith_take len .
  then have "take 7 (c # a @ r) \<noteq> ''skills:''"
    unfolding eq .
  then have test: "lower (take 7 (c # a @ r)) \<noteq> ''skills:''"
    unfolding lower_take fixed .
  have "lower a = a" using Cons.prems(1) by (simp add: lower_def)
  moreover have "\<not> contains (a @ take 6 r) ''skills:''"
    using Cons.prems(3) by simp
  ultimately have "skills_search (a @ r) = skills_search r"
    using Cons.IH Cons.prems(2) by blast
  then show ?case using test by simp
qed

lemma skills_search_marker:
  "skills_search (''skills: python, sql'' @ rest) =
     Some (''python, sql'' @ takeWhile (\<lambda>x. x \<noteq> CHR ''\<newline>'') rest)"
proof -
  have l: "lower ''skills:'' = ''skills:''" by code_simp
  have sp: "py_isspace CHR '' ''" "\<not> py_isspace CHR ''p''" by code_simp+
  have "skills_tail ('' python, sql'' @ rest) =
      Some (''python, sql'' @ takeWhile (\<lambda>x. x \<noteq> CHR ''\<newline>'') rest)"
    using sp by simp
  then show ?thesis using l by simp
qed

lemma fallback_answer_skills_branch:
  assumes "\<not> contains (lower prompt) ''graduation''"
    and "\<not> contains (lower prompt) ''graduate''"
    and "contains (lower prompt) ''skill''"
    and "contains (lower prompt) ''skills:''"
    and "skills_search (lower prompt) = Some found"
  shows "fallback_answer prompt = ''The candidate has the following skills: '' @ found"
  using assms by (simp add: fallback_answer_def Let_def)

text \<open>
  C8 as stated fails twice. The marker is searched in the lower-cased prompt, so the
  answer quotes the lower-cased text: for the prompt \<open>Skills: Python, SQL\<close> it ends in
  \<open>python, sql\<close> and does not contain \<open>Python, SQL\<close>. And the search takes the first marker
  \<open>skills:\<close> of the prompt, which need not be the one of the claim: after a line
  \<open>Top skills: none\<close> the answer quotes \<open>none\<close>.
\<close>

theorem fallback_answer_skills_counterexample:
  "contains (lower ''Skills: Python, SQL'') ''skill'' \<and>
   \<not> contains (lower ''Skills: Python, SQL'') ''graduation'' \<and>
   \<not> contains (lower ''Skills: Python, SQL'') ''graduate'' \<and>
   fallback_answer ''Skills: Python, SQL'' =
     ''The candidate has the following skills: python, sql'' \<and>
   \<not> contains (fallback_answer ''Skills: Python, SQL'') ''Python, SQL'' \<and>
   contains (lower ''Top skills: none\<newline>Skills: Python, SQL'') ''skill'' \<and>
   \<not> contains (lower ''Top skills: none\<newline>Skills: Python, SQL'') ''graduation'' \<and>
   \<not> contains (lower ''Top skills: none\<newline>Skills: Python, SQL'') ''graduate'' \<and>
   fallback_answer ''Top skills: none\<newline>Skills: Python, SQL'' =
     ''The candidate has the following skills: none'' \<and>
   \<not> contains (fallback_answer ''Top skills: none\<newline>Skills: Python, SQL'') ''python, sql''"
  by code_simp

text \<open>
  C8, amended. For a prompt without \<open>graduation\<close> and \<open>graduate\<close> in its lower-cased form
  that contains \<open>Skills: Python, SQL\<close> with no marker \<open>skills:\<close> (in any case) starting
  before it, the answer is \<open>The candidate has the following skills: python, sql\<close>
  followed by the lower-cased rest of the marker's line: it contains \<open>python, sql\<close>.
\<close>

theorem fallback_answer_first_skills_marker:
  "\<not> contains (lower (before @ ''Skills: Python, SQL'' @ after)) ''graduation'' \<and>
   \<not> contains (lower (before @ ''Skills: Python, SQL'' @ after)) ''graduate'' \<and>
   \<not> contains (lower (before @ ''Skills'')) ''skills:'' \<longrightarrow>
   fallback_answer (before @ ''Skills: Python, SQL'' @ after) =
     ''The candidate has the following skills: python, sql'' @
       takeWhile (\<lambda>x. x \<noteq> CHR ''\<newline>'') (lower after) \<and>
   contains (fallback_answer (before @ ''Skills: Python, SQL'' @ after)) ''python, sql''"
proof (intro impI)
  let ?prompt = "before @ ''Skills: Python, SQL'' @ after"
  assume h: "\<not> contains (lower ?prompt) ''graduation'' \<and>
   \<not> contains (lower ?prompt) ''graduate'' \<and>
   \<not> contains (lower (before @ ''Skills'')) ''skills:''"
  have m: "lower ''Skills: Python, SQL'' = ''skills: python, sql''" by code_simp
  have m6: "lower ''Skills'' = ''skills''" by code_simp
  have pl: "lower ?prompt = lower before @ ''skills: python, sql'' @ lower after"
    by (simp only: lower_append m)
  have "lower ?prompt = lower before @ ''skill'' @ (''s: python, sql'' @ lower after)"
    unfolding pl by simp
  then have c1: "contains (lower ?prompt) ''skill''"
    unfolding contains_iff by blast
  have "lower ?prompt = lower before @ ''skills:'' @ ('' python, sql'' @ lower after)"
    unfolding pl by simp
  then have c2: "contains (lower ?prompt) ''skills:''"
    unfolding contains_iff by blast
  have fixed: "lower (''skills: python, sql'' @ lower after) = ''skills: python, sql'' @ lower after"
    using m by (simp only: lower_append lower_idem m [symmetric])
  have "\<not> contains (lower before @ take 6 (''skills: python, sql'' @ lower after)) ''skills:''"
    using h by (simp add: lower_append m6)
  then have "skills_search (lower before @ (''skills: python, sql'' @ lower after)) =
      skills_search (''skills: python, sql'' @ lower after)"
    by (intro skills_search_skip lower_idem fixed)
  then have s: "skills_search (lower ?prompt) =
      Some (''python, sql'' @ takeWhile (\<lambda>x. x \<noteq> CHR ''\<newline>'') (lower after))"
    unfolding pl skills_search_marker .
  have a: "fallback_answer ?prompt =
     ''The candidate has the following skills: python, sql'' @
       takeWhile (\<lambda>x. x \<noteq> CHR ''\<newline>'') (lower after)"
    using fallback_answer_skills_branch [OF _ _ c1 c2 s] h by simp
  have "fallback_answer ?prompt = ''The candidate has the following skills: '' @ ''python, sql'' @
       takeWhile (\<lambda>x. x \<noteq> CHR ''\<newline>'') (lower after)"
    unfolding a by simp
  then have "contains (fallback_answer ?prompt) ''python, sql''"
    unfolding contains_iff by blast
  with a show "fallback_answer ?prompt =
     ''The candidate has the following skills: python, sql'' @
       takeWhile (\<lambda>x. x \<noteq> CHR ''\<newline>'') (lower after) \<and>
   contains (fallback_answer ?prompt) ''python, sql''"
    by blast
qed

theorem fallback_answer_first_skills_marker_witness:
  "fallback_answer (''Candidate Information:\<newline>'' @ ''Skills: Python, SQL'' @ ''\<newline>Question: what skills?'') =
     ''The candidate has the following skills: python, sql''"
proof -
  let ?b = "''Candidate Information:\<newline>''"
  let ?a = "''\<newline>Question: what skills?''"
  have h: "\<not> contains (lower (?b @ ''Skills: Python, SQL'' @ ?a)) ''graduation'' \<and>
   \<not> contains (lower (?b @ ''Skills: Python, SQL'' @ ?a)) ''graduate'' \<and>
   \<not> contains (lower (?b @ ''Skills'')) ''skills:''"
    by code_simp
  have t: "takeWhile (\<lambda>x. x \<noteq> CHR ''\<newline>'') (lower ?a) = []"
    by code_simp
  from fallback_answer_first_skills_marker [of ?b ?a, THEN mp, OF h, THEN conjunct1]
  show ?thesis unfolding t by simp
qed

subsection \<open>C9: the skill matcher and the determinism of the pipeline\<close>

lemma py_find_nonneg: "contains s sub \<Longrightarrow> 0 \<le> py_find s sub"
  by (induction s) (auto simp: Let_def)

lemma length_py_slice: "0 \<le> i \<Longrightarrow> 0 \<le> k \<Longrightarrow> length (py_slice s i (i + k)) \<le> nat k"
proof -
  assume "0 \<le> i" "0 \<le> k"
  then have "slice_index (length s) (i + k) - slice_index (length s) i \<le> nat k"
    unfolding slice_index_def by (simp add: min_def) linarith
  then show ?thesis
    by (simp add: py_slice_def Let_def)
qed

lemma length_skills_window: "length (skills_window kws text_lower resume_text) \<le> 500"
proof (induction kws)
  case Nil
  then show ?case by simp
next
  case (Cons kw kws)
  show ?case
  proof (cases "contains text_lower kw")
    case True
    then have "0 \<le> py_find text_lower kw" by (rule py_find_nonneg)
    then have "length (py_slice resume_text (py_find text_lower kw) (py_find text_lower kw + 500))
        \<le> nat 500"
      by (rule length_py_slice) simp
    then show ?thesis using True by (simp add: Let_def lower_def)
  next
    case False
    then show ?thesis using Cons by simp
  qed
qed

lemma singleton_listing: "set xs = {a} \<Longrightarrow> distinct xs \<Longrightarrow> xs = [a]"
proof (cases xs)
  case Nil
  assume "set xs = {a}"
  with Nil show ?thesis by simp
next
  case (Cons x ys)
  assume s: "set xs = {a}" and d: "distinct xs"
  from s Cons have x: "x = a" by auto
  have "set ys \<subseteq> {a}" using s Cons by auto
  moreover have "a \<notin> set ys" using d Cons x by simp
  ultimately have "ys = []" by (cases ys) auto
  then show ?thesis using Cons x by simp
qed

text \<open>
  C9. Two runs of the pipeline on the same text may differ in the order in which
  \<open>list(set(skills))\<close> lists the skills and in the API key of the environment. For any two
  listings that keep the elements and list each once: the skills of a run have no
  duplicates and are exactly the title-cased forms of the vocabulary tokens that are
  substrings of the lower-cased text or of the skills window, which has at most 500
  characters; \<open>I know PYTHON and Python\<close> gives \<open>Python\<close> once; the two runs agree on
  education, experience, hobbies, certifications, projects and introduction, and their
  skills are equal as sets; and with the same listing the whole profile does not depend
  on the API key.
\<close>

theorem extract_skills_deduplicated:
  "(\<forall>xs. set (order1 xs) = set xs \<and> distinct (order1 xs)) \<and>
   (\<forall>xs. set (order2 xs) = set xs \<and> distinct (order2 xs)) \<longrightarrow>
   distinct (extract_skills order1 (lower resume_text) resume_text) \<and>
   set (extract_skills order1 (lower resume_text) resume_text) =
     {py_title skill | skill. skill \<in> set common_skills \<and>
        (contains (lower resume_text) skill \<or>
         contains (skills_window skills_keywords (lower resume_text) resume_text) skill)} \<and>
   length (skills_window skills_keywords (lower resume_text) resume_text) \<le> 500 \<and>
   extract_skills order1 (lower ''I know PYTHON and Python'') ''I know PYTHON and Python'' =
     [''Python''] \<and>
   education (process_resume order1 key1 resume_text) =
     education (process_resume order2 key2 resume_text) \<and>
   experience (process_resume order1 key1 resume_text) =
     experience (process_resume order2 key2 resume_text) \<and>
   set (skills (process_resume order1 key1 resume_text)) =
     set (skills (process_resume order2 key2 resume_text)) \<and>
   hobbies (process_resume order1 key1 resume_text) =
     hobbies (process_resume order2 key2 resume_text) \<and>
   certifications (process_resume order1 key1 resume_text) =
     certifications (process_resume order2 key2 resume_text) \<and>
   projects (process_resume order1 key1 resume_text) =
     projects (process_resume order2 key2 resume_text) \<and>
   introduction (process_resume order1 key1 resume_text) =
     introduction (process_resume order2 key2 resume_text) \<and>
   process_resume order1 key1 resume_text = process_resume order1 key2 resume_text"
proof (intro impI)
  assume h: "(\<forall>xs. set (order1 xs) = set xs \<and> distinct (order1 xs)) \<and>
   (\<forall>xs. set (order2 xs) = set xs \<and> distinct (order2 xs))"
  then have o1: "\<And>xs. set (order1 xs) = set xs" "\<And>xs. distinct (order1 xs)"
    and o2: "\<And>xs. set (order2 xs) = set xs"
    by blast+
  have d: "distinct (extract_skills order1 (lower resume_text) resume_text)"
    by (simp add: extract_skills_def Let_def o1)
  have s: "set (extract_skills order (lower resume_text) resume_text) =
     {py_title skill | skill. skill \<in> set common_skills \<and>
        (contains (lower resume_text) skill \<or>
         contains (skills_window skills_keywords (lower resume_text) resume_text) skill)}"
    if "\<And>xs. set (order xs) = set xs" for order
    unfolding extract_skills_def Let_def that set_map set_filter by blast
  have w: "length (skills_window skills_keywords (lower resume_text) resume_text) \<le> 500"
    by (rule length_skills_window)
  have v: "map py_title (filter (\<lambda>skill. contains (lower ''I know PYTHON and Python'') skill \<or>
         contains (skills_window skills_keywords (lower ''I know PYTHON and Python'')
            ''I know PYTHON and Python'') skill) common_skills) = [''Python'']"
    by code_simp
  have "set (extract_skills order1 (lower ''I know PYTHON and Python'')
        ''I know PYTHON and Python'') = {''Python''}"
    unfolding extract_skills_def Let_def v o1 by simp
  moreover have "distinct (extract_skills order1 (lower ''I know PYTHON and Python'')
        ''I know PYTHON and Python'')"
    by (simp add: extract_skills_def Let_def o1)
  ultimately have e: "extract_skills order1 (lower ''I know PYTHON and Python'')
      ''I know PYTHON and Python'' = [''Python'']"
    by (rule singleton_listing)
  have sk: "set (skills (process_resume order1 key1 resume_text)) =
     set (skills (process_resume order2 key2 resume_text))"
    unfolding process_resume_profile using s [OF o1(1)] s [OF o2] by simp
  show "distinct (extract_skills order1 (lower resume_text) resume_text) \<and>
   set (extract_skills order1 (lower resume_text) resume_text) =
     {py_title skill | skill. skill \<in> set common_skills \<and>
        (contains (lower resume_text) skill \<or>
         contains (skills_window skills_keywords (lower resume_text) resume_text) skill)} \<and>
   length (skills_window skills_keywords (lower resume_text) resume_text) \<le> 500 \<and>
   extract_skills order1 (lower ''I know PYTHON and Python'') ''I know PYTHON and Python'' =
     [''Python''] \<and>
   education (process_resume order1 key1 resume_text) =
     education (process_resume order2 key2 resume_text) \<and>
   experience (process_resume order1 key1 resume_text) =
     experience (process_resume order2 key2 resume_text) \<and>
   set (skills (process_resume order1 key1 resume_text)) =
     set (skills (process_resume order2 key2 resume_text)) \<and>
   hobbies (process_resume order1 key1 resume_text) =
     hobbies (process_resume order2 key2 resume_text) \<and>
   certifications (process_resume order1 key1 resume_text) =
     certifications (process_resume order2 key2 resume_text) \<and>
   projects (process_resume order1 key1 resume_text) =
     projects (process_resume order2 key2 resume_text) \<and>
   introduction (process_resume order1 key1 resume_text) =
     introduction (process_resume order2 key2 resume_text) \<and>
   process_resume order1 key1 resume_text = process_resume order1 key2 resume_text"
  proof (intro conjI)
    show "set (skills (process_resume order1 key1 resume_text)) =
     set (skills (process_resume order2 key2 resume_text))"
      by (rule sk)
    show "set (extract_skills order1 (lower resume_text) resume_text) =
     {py_title skill | skill. skill \<in> set common_skills \<and>
        (contains (lower resume_text) skill \<or>
         contains (skills_window skills_keywords (lower resume_text) resume_text) skill)}"
      by (rule s [OF o1(1)])
  qed (simp_all only: d w e process_resume_profile candidate_profile.simps)
qed

text \<open>
  Two runs on a text with two skills, one listing them in the order of the vocabulary and
  without API key, the other in the reverse order and with a key: the lists of skills
  differ, the sets and the introductions are equal.
\<close>

theorem extract_skills_deduplicated_witness:
  "skills (process_resume remdups None ''Skills: SQL, sql and Node.js'') = [''Sql'', ''Node.Js''] \<and>
   skills (process_resume (\<lambda>xs. rev (remdups xs)) (Some ''hf_key'') ''Skills: SQL, sql and Node.js'') =
     [''Node.Js'', ''Sql''] \<and>
   set (skills (process_resume remdups None ''Skills: SQL, sql and Node.js'')) =
     set (skills (process_resume (\<lambda>xs. rev (remdups xs)) (Some ''hf_key'')
        ''Skills: SQL, sql and Node.js'')) \<and>
   introduction (process_resume remdups None ''Skills: SQL, sql and Node.js'') =
     introduction (process_resume (\<lambda>xs. rev (remdups xs)) (Some ''hf_key'')
        ''Skills: SQL, sql and Node.js'')"
proof -
  have h: "(\<forall>xs :: string list. set (remdups xs) = set xs \<and> distinct (remdups xs)) \<and>
     (\<forall>xs :: string list. set (rev (remdups xs)) = set xs \<and> distinct (rev (remdups xs)))"
    by simp
  have a: "skills (process_resume remdups None ''Skills: SQL, sql and Node.js'') =
      [''Sql'', ''Node.Js'']"
    by code_simp
  have b: "skills (process_resume (\<lambda>xs. rev (remdups xs)) (Some ''hf_key'')
      ''Skills: SQL, sql and Node.js'') = [''Node.Js'', ''Sql'']"
    by code_simp
  note t = extract_skills_deduplicated [of remdups "\<lambda>xs. rev (remdups xs)"
      "''Skills: SQL, sql and Node.js''" None "Some ''hf_key''", THEN mp, OF h]
  from t have "set (skills (process_resume remdups None ''Skills: SQL, sql and Node.js'')) =
     set (skills (process_resume (\<lambda>xs. rev (remdups xs)) (Some ''hf_key'')
        ''Skills: SQL, sql and Node.js''))"
    by (elim conjE)
  moreover from t have "introduction (process_resume remdups None ''Skills: SQL, sql and Node.js'') =
     introduction (process_resume (\<lambda>xs. rev (remdups xs)) (Some ''hf_key'')
        ''Skills: SQL, sql and Node.js'')"
    by (elim conjE)
  ultimately show ?thesis using a b by (intro conjI)
qed

subsection \<open>C10: empty hobbies\<close>

lemma extract_hobbies_first_match:
  "\<forall>l\<in>set pre. \<not> has_keyword hobby_keywords (lower l) \<Longrightarrow>
   has_keyword hobby_keywords (lower line) \<Longrightarrow>
   extract_hobbies text_lower (pre @ line # post) =
     (let parts = split_on (CHR '':'') line
      in if length parts > 1
         then take 5 (map strip (split_on (CHR '','') (parts ! 1)))
         else [])"
  by (induction pre) simp_all

text \<open>
  C10. The hobbies locator trims the comma-separated items after the first colon of the
  first matching line and keeps the empty ones: the line \<open>Hobbies:\<close> gives the list of one
  empty string, and \<open>Hobbies: reading,,chess\<close> gives an empty string between \<open>reading\<close>
  and \<open>chess\<close>. In general the result is the first five trimmed items, whatever they are.
\<close>

theorem extract_hobbies_keeps_empty_items:
  "extract_hobbies text_lower [''Hobbies:''] = [''''] \<and>
   extract_hobbies text_lower [''Hobbies: reading,,chess''] = [''reading'', '''', ''chess''] \<and>
   (\<forall>pre line post before items more.
      (\<forall>l\<in>set pre. \<not> has_keyword hobby_keywords (lower l)) \<and>
      has_keyword hobby_keywords (lower line) \<and>
      split_on (CHR '':'') line = before # items # more \<longrightarrow>
      extract_hobbies text_lower (pre @ line # post) =
        take 5 (map strip (split_on (CHR '','') items)))"
proof (intro conjI allI impI)
  show "extract_hobbies text_lower [''Hobbies:''] = ['''']"
    by code_simp
  show "extract_hobbies text_lower [''Hobbies: reading,,chess''] = [''reading'', '''', ''chess'']"
    by code_simp
next
  fix pre line post before items more
  assume h: "(\<forall>l\<in>set pre. \<not> has_keyword hobby_keywords (lower l)) \<and>
      has_keyword hobby_keywords (lower line) \<and>
      split_on (CHR '':'') line = before # items # more"
  then show "extract_hobbies text_lower (pre @ line # post) =
        take 5 (map strip (split_on (CHR '','') items))"
    using extract_hobbies_first_match [of pre line text_lower post] by simp
qed

theorem extract_hobbies_keeps_empty_items_witness:
  "extract_hobbies [] [''Jane Doe'', ''Interests: ,chess , '', ''Hobbies: none''] =
     ['''', ''chess'', '''']"
proof -
  have a: "\<forall>l\<in>set [''Jane Doe'']. \<not> has_keyword hobby_keywords (lower l)"
    by code_simp
  have b: "has_keyword hobby_keywords (lower ''Interests: ,chess , '')"
    by code_simp
  have c: "split_on (CHR '':'') ''Interests: ,chess , '' = [''Interests'', '' ,chess , '']"
    by code_simp
  have d: "take 5 (map strip (split_on (CHR '','') '' ,chess , '')) = ['''', ''chess'', '''']"
    by code_simp
  have "extract_hobbies [] ([''Jane Doe''] @ ''Interests: ,chess , '' # [''Hobbies: none'']) =
        take 5 (map strip (split_on (CHR '','') '' ,chess , ''))"
    using extract_hobbies_keeps_empty_items [of "[]"] a b c by blast
  then show ?thesis
    by (simp only: d append_Cons append_Nil)
qed

end
